theory Spec2Isabelle
  imports Main "HOL-Library.Word"
begin

section \<open>The two Direct3D 12 samples: data model\<close>

text \<open>
  The repository holds two samples, \<^verbatim>\<open>samples/tiny/main.cpp\<close> and
  \<^verbatim>\<open>samples/triangle/triangle.cpp\<close>. Both keep their state in globals, call the
  graphics API in a fixed order and synchronise with the GPU through one fence.
  The embedding keeps the globals in a record, passes the record through every
  function, and appends every API call the sample code makes to the field
  \<open>calls\<close>. The GPU and the operating system are the environment: their part
  of the state (the swap chain's current back buffer, the fence's value, the
  command queue) lives in the same record, and their freedom (how far the GPU has
  got when the CPU looks) is an argument of the functions.
\<close>

type_synonym uint8 = "8 word"
type_synonym uint64 = "64 word"
type_synonym HRESULT = "32 word"
type_synonym handle = nat

definition S_OK :: HRESULT where
  "S_OK = 0"

definition E_FAIL :: HRESULT where
  "E_FAIL = 0x80004005"

definition kFrameCount :: nat where
  "kFrameCount = 3"

text \<open>The clear colour \<^verbatim>\<open>{ 0.0f, 0.2f, 0.4f, 1.0f }\<close>, kept as the literals of the source.\<close>

definition kClearColor :: "string list" where
  "kClearColor = [''0.0f'', ''0.2f'', ''0.4f'', ''1.0f'']"

text \<open>The depth clear value \<^verbatim>\<open>{1.0f, 0}\<close> of \<^verbatim>\<open>kClearDepth\<close> (triangle only).\<close>

definition kClearDepth :: "string \<times> nat" where
  "kClearDepth = (''1.0f'', 0)"

subsection \<open>Paths and files\<close>

text \<open>
  A \<^verbatim>\<open>std::filesystem::path\<close>: its root (root name and root directory, empty for a
  relative path) and the file names after the root. \<open>parent_path\<close> drops the last
  name; \<open>path_append\<close> is \<^verbatim>\<open>operator/\<close>, which replaces the left side when the right
  side is absolute and appends the names otherwise.
\<close>

record fs_path =
  root_path :: string
  relative_path :: "string list"

definition parent_path :: "fs_path \<Rightarrow> fs_path" where
  "parent_path p = p\<lparr>relative_path := butlast (relative_path p)\<rparr>"

definition is_absolute :: "fs_path \<Rightarrow> bool" where
  "is_absolute p = (root_path p \<noteq> [])"

definition path_append :: "fs_path \<Rightarrow> fs_path \<Rightarrow> fs_path" where
  "path_append p q =
     (if is_absolute q then q
      else p\<lparr>relative_path := relative_path p @ relative_path q\<rparr>)"

text \<open>
  The file system as the sample sees it: the files that can be opened for reading,
  with their bytes. A path outside the domain cannot be opened.
\<close>

type_synonym file_system = "fs_path \<rightharpoonup> uint8 list"

text \<open>
  An open \<^verbatim>\<open>std::ifstream\<close>: the bytes not yet read and the fail bit. Opening a path
  that cannot be opened gives a stream with the fail bit set and nothing to read.
\<close>

record ifstream =
  remaining :: "uint8 list"
  failbit :: bool

definition ifstream_open :: "file_system \<Rightarrow> fs_path \<Rightarrow> ifstream" where
  "ifstream_open fs p =
     (case fs p of
        None \<Rightarrow> \<lparr>remaining = [], failbit = True\<rparr>
      | Some bytes \<Rightarrow> \<lparr>remaining = bytes, failbit = False\<rparr>)"

text \<open>\<^verbatim>\<open>std::filesystem::file_size\<close>: the length of the file (0 is never asked for a
  missing file by the code below).\<close>

definition file_size :: "file_system \<Rightarrow> fs_path \<Rightarrow> nat" where
  "file_size fs p = (case fs p of None \<Rightarrow> 0 | Some bytes \<Rightarrow> length bytes)"

text \<open>\<^verbatim>\<open>std::vector::resize\<close>: truncates, or pads with zero bytes.\<close>

definition resize :: "uint8 list \<Rightarrow> nat \<Rightarrow> uint8 list" where
  "resize v n = take n v @ replicate (n - length v) 0"

text \<open>
  \<^verbatim>\<open>istream::read(dst, n)\<close>: on a failed stream nothing is read; otherwise the first
  \<open>n\<close> bytes that remain are stored at the start of the destination, and the fail
  bit is set when fewer than \<open>n\<close> remained.
\<close>

definition ifstream_read :: "ifstream \<Rightarrow> uint8 list \<Rightarrow> nat \<Rightarrow> ifstream \<times> uint8 list" where
  "ifstream_read f dst n =
     (if failbit f then (f, dst)
      else
        let got = take n (remaining f)
        in (\<lparr>remaining = drop n (remaining f), failbit = length got < n\<rparr>,
            got @ drop (length got) dst))"

subsection \<open>API calls, GPU work and the state\<close>

datatype heap_type = HEAP_TYPE_RTV | HEAP_TYPE_DSV

datatype resource_state = STATE_PRESENT | STATE_RENDER_TARGET

text \<open>
  The calls the sample code makes, with the arguments the properties are about.
  Descriptor handles are the 64-bit addresses the code computes; fences and events
  are named by their handles; results that the API returns (a handle, an index, a
  fence value, whether a file opened) are recorded beside the arguments. Calls that
  only read a handle or a size (\<^verbatim>\<open>GetCPUDescriptorHandleForHeapStart\<close>,
  \<^verbatim>\<open>GetDescriptorHandleIncrementSize\<close>, \<^verbatim>\<open>get()\<close>) are not recorded: their results are
  the fields \<open>rtvHeapStart\<close>, \<open>dsvHeapStart\<close> and \<open>heapDescriptorSize\<close> of the state.
\<close>

datatype api_call =
    CreateDevice
  | CreateCommandQueue
  | CreateSwapChainForHwnd nat
  | CreateHeapDescriptor nat heap_type
  | CreateRenderTargetViews
  | CreateCommittedResource
  | CreateDepthStencilView
  | CreateCommandAllocator nat
  | CreateCommandList nat
  | CreateFence uint64 handle
  | CreateEvent handle
  | GetModuleFileName
  | IfstreamOpen fs_path bool
  | CreateRootSignature "uint8 list"
  | CreateGraphicsPipelineState "uint8 list" "uint8 list"
  | AllocatorReset nat
  | CommandListReset nat
  | ResourceBarrier nat resource_state resource_state
  | SetPipelineState
  | OMSetRenderTargets uint64 "uint64 option"
  | ClearRenderTargetView uint64 "string list"
  | ClearDepthStencilView uint64 "string \<times> nat"
  | CommandListClose
  | ExecuteCommandLists
  | Present nat nat
  | Signal handle uint64
  | GetCurrentBackBufferIndex nat
  | GetCompletedValue handle uint64
  | SetEventOnCompletion handle uint64 handle
  | WaitForSingleObjectEx handle

text \<open>
  What the command queue holds for the GPU, in submission order: a command list
  recorded into the allocator of a frame index, or a fence signal.
\<close>

datatype gpu_work = ExecCommandList nat | SignalFence uint64

record d3d_state =
  frameIndex :: nat
  swapFence :: handle
  fenceEvent :: handle
  swapFenceCounter :: uint64
  swapFenceWaitValue :: "uint64 list"
  vertexShader :: "uint8 list"
  pixelShader :: "uint8 list"
  rtvHeapStart :: uint64
  dsvHeapStart :: uint64
  heapDescriptorSize :: uint64
  backBufferIndex :: nat
  fenceValue :: uint64
  fenceEventTarget :: "uint64 option"
  gpuQueue :: "gpu_work list"
  calls :: "api_call list"

text \<open>
  A function that waits with an infinite timeout either returns or blocks for ever;
  both outcomes carry the state reached.
\<close>

datatype outcome = Returned d3d_state | Blocked d3d_state

fun stateOf :: "outcome \<Rightarrow> d3d_state" where
  "stateOf (Returned s) = s"
| "stateOf (Blocked s) = s"

fun hasReturned :: "outcome \<Rightarrow> bool" where
  "hasReturned (Returned s) = True"
| "hasReturned (Blocked s) = False"

definition call :: "api_call \<Rightarrow> d3d_state \<Rightarrow> d3d_state" where
  "call c s = s\<lparr>calls := calls s @ [c]\<rparr>"

subsection \<open>The environment: GPU, fence, swap chain, event\<close>

text \<open>
  The GPU takes the work of the queue in order. A command list changes nothing the
  CPU sees; a signal sets the fence to its value.
\<close>

fun retire :: "gpu_work \<Rightarrow> uint64 \<Rightarrow> uint64" where
  "retire (ExecCommandList i) f = f"
| "retire (SignalFence v) f = v"

fun gpuRun :: "nat \<Rightarrow> uint64 \<Rightarrow> gpu_work list \<Rightarrow> uint64 \<times> gpu_work list" where
  "gpuRun 0 f q = (f, q)"
| "gpuRun (Suc k) f [] = (f, [])"
| "gpuRun (Suc k) f (w # q) = gpuRun k (retire w f) q"

text \<open>The GPU gets \<open>k\<close> pieces of work further (or empties the queue).\<close>

definition gpuAdvance :: "nat \<Rightarrow> d3d_state \<Rightarrow> d3d_state" where
  "gpuAdvance k s =
     (case gpuRun k (fenceValue s) (gpuQueue s) of
        (f, q) \<Rightarrow> s\<lparr>fenceValue := f, gpuQueue := q\<rparr>)"

text \<open>
  Waiting for the fence to reach a target: the GPU works until the fence value is
  at least the target; when the queue is empty before that, the wait never ends.
\<close>

fun gpuWait :: "uint64 \<Rightarrow> uint64 \<Rightarrow> gpu_work list \<Rightarrow> (uint64 \<times> gpu_work list) option" where
  "gpuWait target f [] = (if target \<le> f then Some (f, []) else None)"
| "gpuWait target f (w # q) =
     (if target \<le> f then Some (f, w # q) else gpuWait target (retire w f) q)"

definition do_ExecuteCommandLists :: "nat \<Rightarrow> d3d_state \<Rightarrow> d3d_state" where
  "do_ExecuteCommandLists allocator s =
     (call ExecuteCommandLists s)\<lparr>gpuQueue := gpuQueue s @ [ExecCommandList allocator]\<rparr>"

text \<open>\<^verbatim>\<open>Present(1, 0)\<close> on a flip swap chain of \<open>kFrameCount\<close> buffers: the next buffer
  becomes the current back buffer.\<close>

definition do_Present :: "d3d_state \<Rightarrow> d3d_state" where
  "do_Present s =
     (call (Present 1 0) s)\<lparr>backBufferIndex := (backBufferIndex s + 1) mod kFrameCount\<rparr>"

definition do_Signal :: "uint64 \<Rightarrow> d3d_state \<Rightarrow> d3d_state" where
  "do_Signal v s =
     (call (Signal (swapFence s) v) s)\<lparr>gpuQueue := gpuQueue s @ [SignalFence v]\<rparr>"

definition do_GetCurrentBackBufferIndex :: "d3d_state \<Rightarrow> nat \<times> d3d_state" where
  "do_GetCurrentBackBufferIndex s =
     (backBufferIndex s, call (GetCurrentBackBufferIndex (backBufferIndex s)) s)"

definition do_GetCompletedValue :: "d3d_state \<Rightarrow> uint64 \<times> d3d_state" where
  "do_GetCompletedValue s =
     (fenceValue s, call (GetCompletedValue (swapFence s) (fenceValue s)) s)"

text \<open>The event is set once the fence has reached the value.\<close>

definition do_SetEventOnCompletion :: "uint64 \<Rightarrow> d3d_state \<Rightarrow> d3d_state" where
  "do_SetEventOnCompletion v s =
     (call (SetEventOnCompletion (swapFence s) v (fenceEvent s)) s)\<lparr>fenceEventTarget := Some v\<rparr>"

text \<open>
  \<^verbatim>\<open>WaitForSingleObjectEx(fenceEvent, INFINITE, FALSE)\<close> on the auto-reset event: it
  returns when the event is set and resets it; with no completion registered, or a
  fence that never reaches the registered value, it blocks for ever.
\<close>

definition do_WaitForSingleObjectEx :: "d3d_state \<Rightarrow> outcome" where
  "do_WaitForSingleObjectEx s =
     (let s1 = call (WaitForSingleObjectEx (fenceEvent s)) s
      in case fenceEventTarget s1 of
           None \<Rightarrow> Blocked s1
         | Some v \<Rightarrow>
             (case gpuWait v (fenceValue s1) (gpuQueue s1) of
                None \<Rightarrow> Blocked (gpuAdvance (length (gpuQueue s1)) s1)
              | Some (f, q) \<Rightarrow>
                  Returned (s1\<lparr>fenceValue := f, gpuQueue := q, fenceEventTarget := None\<rparr>)))"

section \<open>The code of the samples\<close>

subsection \<open>readShader (identical in both samples)\<close>

text \<open>
  What the process finds around it: the module path that \<^verbatim>\<open>GetModuleFileName\<close> writes
  to \<^verbatim>\<open>modulePathBuffer\<close>, the files, and the handles and addresses the API hands out
  during initialisation.
\<close>

record init_env =
  modulePathBuffer :: fs_path
  files :: file_system
  newFence :: handle
  newEvent :: handle
  rtvStart :: uint64
  dsvStart :: uint64
  descriptorSize :: uint64

definition fullFilePath :: "init_env \<Rightarrow> fs_path \<Rightarrow> fs_path" where
  "fullFilePath env filePath = path_append (parent_path (modulePathBuffer env)) filePath"

text \<open>The result code, the buffer \<^verbatim>\<open>outShaderData\<close> afterwards, and the calls made.\<close>

definition readShader ::
  "init_env \<Rightarrow> fs_path \<Rightarrow> uint8 list \<Rightarrow> HRESULT \<times> uint8 list \<times> api_call list" where
  "readShader env filePath outShaderData =
     (let path = fullFilePath env filePath;
          file = ifstream_open (files env) path;
          log = [GetModuleFileName, IfstreamOpen path (\<not> failbit file)];
          (file', out') =
            (if \<not> failbit file then
               let fileSize = file_size (files env) path
               in ifstream_read file (resize outShaderData fileSize) fileSize
             else (file, outShaderData))
      in (if \<not> failbit file' then S_OK else E_FAIL, out', log))"

subsection \<open>initializeD3d\<close>

text \<open>The globals as the program starts: zero-initialised, empty vectors, no GPU work.\<close>

definition globals0 :: d3d_state where
  "globals0 =
     \<lparr>frameIndex = 0, swapFence = 0, fenceEvent = 0, swapFenceCounter = 0,
      swapFenceWaitValue = replicate kFrameCount 0, vertexShader = [], pixelShader = [],
      rtvHeapStart = 0, dsvHeapStart = 0, heapDescriptorSize = 0,
      backBufferIndex = 0, fenceValue = 0, fenceEventTarget = None,
      gpuQueue = [], calls = []\<rparr>"

text \<open>The loop \<^verbatim>\<open>for (i = 0; i < kFrameCount; ++i) commandAllocators[i] = ...\<close>.\<close>

definition createCommandAllocators :: "d3d_state \<Rightarrow> d3d_state" where
  "createCommandAllocators s = foldl (\<lambda>s i. call (CreateCommandAllocator i) s) s [0..<kFrameCount]"

text \<open>
  \<^verbatim>\<open>swapFence = device->createFence(swapFenceCounter++, ...)\<close> and
  \<^verbatim>\<open>fenceEvent = CreateEvent(...)\<close>: the fence starts at the counter's value before
  the increment.
\<close>

definition createFenceAndEvent :: "init_env \<Rightarrow> d3d_state \<Rightarrow> d3d_state" where
  "createFenceAndEvent env s =
     (let s1 = (call (CreateFence (swapFenceCounter s) (newFence env)) s)
                 \<lparr>swapFence := newFence env, fenceValue := swapFenceCounter s,
                  swapFenceCounter := swapFenceCounter s + 1\<rparr>
      in (call (CreateEvent (newEvent env)) s1)\<lparr>fenceEvent := newEvent env, fenceEventTarget := None\<rparr>)"

text \<open>The two \<^verbatim>\<open>readShader\<close> calls; their result codes are dropped, as in the source.\<close>

definition readShaders :: "init_env \<Rightarrow> d3d_state \<Rightarrow> d3d_state" where
  "readShaders env s =
     (let (hr1, vs, log1) =
            readShader env \<lparr>root_path = [], relative_path = [''simple_vs.cso'']\<rparr> (vertexShader s);
          (hr2, ps, log2) =
            readShader env \<lparr>root_path = [], relative_path = [''simple_ps.cso'']\<rparr> (pixelShader s)
      in s\<lparr>vertexShader := vs, pixelShader := ps, calls := calls s @ log1 @ log2\<rparr>)"

definition createPipeline :: "d3d_state \<Rightarrow> d3d_state" where
  "createPipeline s =
     call (CreateGraphicsPipelineState (vertexShader s) (pixelShader s))
       (call (CreateRootSignature (vertexShader s)) s)"

definition tiny_initializeD3d :: "init_env \<Rightarrow> d3d_state \<Rightarrow> d3d_state" where
  "tiny_initializeD3d env s0 =
     (let s1 = call CreateCommandQueue (call CreateDevice s0);
          s2 = (call (CreateSwapChainForHwnd kFrameCount) s1)\<lparr>backBufferIndex := 0\<rparr>;
          s3 = (call CreateRenderTargetViews (call (CreateHeapDescriptor 8 HEAP_TYPE_RTV) s2))
                 \<lparr>rtvHeapStart := rtvStart env, heapDescriptorSize := descriptorSize env\<rparr>;
          s4 = createCommandAllocators s3;
          s5 = call CommandListClose (call (CreateCommandList 0) s4);
          s6 = createFenceAndEvent env s5;
          s7 = readShaders env s6
      in createPipeline s7)"

definition triangle_initializeD3d :: "init_env \<Rightarrow> d3d_state \<Rightarrow> d3d_state" where
  "triangle_initializeD3d env s0 =
     (let s1 = call CreateCommandQueue (call CreateDevice s0);
          s2 = (call (CreateSwapChainForHwnd kFrameCount) s1)\<lparr>backBufferIndex := 0\<rparr>;
          s3 = (call CreateRenderTargetViews (call (CreateHeapDescriptor kFrameCount HEAP_TYPE_RTV) s2))
                 \<lparr>rtvHeapStart := rtvStart env, heapDescriptorSize := descriptorSize env\<rparr>;
          s3a = call CreateCommittedResource s3;
          s3b = (call CreateDepthStencilView (call (CreateHeapDescriptor 1 HEAP_TYPE_DSV) s3a))
                  \<lparr>dsvHeapStart := dsvStart env\<rparr>;
          s4 = createCommandAllocators s3b;
          s5 = call CommandListClose (call (CreateCommandList 0) s4);
          s6 = createFenceAndEvent env s5;
          s7 = readShaders env s6
      in createPipeline s7)"

subsection \<open>The frame: draw and waitGpu\<close>

text \<open>
  How far the GPU gets while the CPU is elsewhere: \<open>gpuBefore\<close> pieces of work
  before \<^verbatim>\<open>draw\<close> resets the allocator, \<open>gpuAfter\<close> more before the fence value is
  read.
\<close>

record frame_env =
  gpuBefore :: nat
  gpuAfter :: nat

text \<open>
  \<^verbatim>\<open>waitGpu(bool forceWait = false)\<close> of the triangle sample. The vector and array
  indices are the swap chain's buffer indices, below \<open>kFrameCount\<close>.
\<close>

definition triangle_waitGpu :: "bool \<Rightarrow> nat \<Rightarrow> d3d_state \<Rightarrow> outcome" where
  "triangle_waitGpu forceWait gpuProgress s0 =
     (let s1 = do_Signal (swapFenceCounter s0) s0;
          s2 = s1\<lparr>swapFenceWaitValue := (swapFenceWaitValue s1)[frameIndex s1 := swapFenceCounter s1],
                  swapFenceCounter := swapFenceCounter s1 + 1\<rparr>;
          (nextFrameIndex, s3) = do_GetCurrentBackBufferIndex s2;
          (completed, s4) = do_GetCompletedValue (gpuAdvance gpuProgress s3)
      in if completed < swapFenceWaitValue s4 ! nextFrameIndex \<or> forceWait then
           (case do_WaitForSingleObjectEx
                   (do_SetEventOnCompletion (swapFenceWaitValue s4 ! nextFrameIndex) s4) of
              Returned s5 \<Rightarrow> Returned (s5\<lparr>frameIndex := nextFrameIndex\<rparr>)
            | Blocked s5 \<Rightarrow> Blocked s5)
         else Returned (s4\<lparr>frameIndex := nextFrameIndex\<rparr>))"

definition triangle_draw :: "frame_env \<Rightarrow> d3d_state \<Rightarrow> outcome" where
  "triangle_draw env s0 =
     (let s = gpuAdvance (gpuBefore env) s0;
          rtvHandle = rtvHeapStart s;
          dsvHandle = dsvHeapStart s;
          frameRtvHandle = rtvHandle + of_nat (frameIndex s) * heapDescriptorSize s;
          commandAllocator = frameIndex s;
          s = call (AllocatorReset commandAllocator) s;
          s = call (CommandListReset commandAllocator) s;
          s = call (ResourceBarrier (frameIndex s) STATE_PRESENT STATE_RENDER_TARGET) s;
          s = call SetPipelineState s;
          s = call (OMSetRenderTargets frameRtvHandle (Some dsvHandle)) s;
          s = call (ClearRenderTargetView frameRtvHandle kClearColor) s;
          s = call (ClearDepthStencilView dsvHandle kClearDepth) s;
          s = call (ResourceBarrier (frameIndex s) STATE_RENDER_TARGET STATE_PRESENT) s;
          s = call CommandListClose s;
          s = do_ExecuteCommandLists commandAllocator s;
          s = do_Present s
      in triangle_waitGpu False (gpuAfter env) s)"

text \<open>\<^verbatim>\<open>draw\<close> of the tiny sample, which has the fence logic inline.\<close>

definition tiny_draw :: "frame_env \<Rightarrow> d3d_state \<Rightarrow> outcome" where
  "tiny_draw env s0 =
     (let s = gpuAdvance (gpuBefore env) s0;
          rtvHandle = rtvHeapStart s + of_nat (frameIndex s) * heapDescriptorSize s;
          commandAllocator = frameIndex s;
          s = call (AllocatorReset commandAllocator) s;
          s = call (CommandListReset commandAllocator) s;
          s = call (ResourceBarrier (frameIndex s) STATE_PRESENT STATE_RENDER_TARGET) s;
          s = call SetPipelineState s;
          s = call (OMSetRenderTargets rtvHandle None) s;
          s = call (ClearRenderTargetView rtvHandle kClearColor) s;
          s = call (ResourceBarrier (frameIndex s) STATE_RENDER_TARGET STATE_PRESENT) s;
          s = call CommandListClose s;
          s = do_ExecuteCommandLists commandAllocator s;
          s = do_Present s;
          s1 = do_Signal (swapFenceCounter s) s;
          s2 = s1\<lparr>swapFenceWaitValue := (swapFenceWaitValue s1)[frameIndex s1 := swapFenceCounter s1],
                  swapFenceCounter := swapFenceCounter s1 + 1\<rparr>;
          (nextFrameIndex, s3) = do_GetCurrentBackBufferIndex s2;
          (completed, s4) = do_GetCompletedValue (gpuAdvance (gpuAfter env) s3)
      in if completed < swapFenceWaitValue s4 ! nextFrameIndex then
           (case do_WaitForSingleObjectEx
                   (do_SetEventOnCompletion (swapFenceWaitValue s4 ! nextFrameIndex) s4) of
              Returned s5 \<Rightarrow> Returned (s5\<lparr>frameIndex := nextFrameIndex\<rparr>)
            | Blocked s5 \<Rightarrow> Blocked s5)
         else Returned (s4\<lparr>frameIndex := nextFrameIndex\<rparr>))"

subsection \<open>WinMain and the main loop\<close>

text \<open>
  What the message loop delivers: a frame to draw, or the destruction of the window
  (with the progress the GPU makes inside the handler).
\<close>

datatype loop_event = Frame frame_env | WindowDestroy nat

text \<open>The handler the triangle sample installs: \<^verbatim>\<open>[]() { waitGpu(true); }\<close>.\<close>

definition onWindowDestroy :: "nat \<Rightarrow> d3d_state \<Rightarrow> outcome" where
  "onWindowDestroy gpuProgress s = triangle_waitGpu True gpuProgress s"

fun triangle_step :: "loop_event \<Rightarrow> d3d_state \<Rightarrow> outcome" where
  "triangle_step (Frame env) s = triangle_draw env s"
| "triangle_step (WindowDestroy k) s = onWindowDestroy k s"

text \<open>The tiny sample installs no handler.\<close>

fun tiny_step :: "loop_event \<Rightarrow> d3d_state \<Rightarrow> outcome" where
  "tiny_step (Frame env) s = tiny_draw env s"
| "tiny_step (WindowDestroy k) s = Returned s"

text \<open>
  Modelled from the spec: \<^verbatim>\<open>fastdx::runMainLoop\<close> and the callback
  \<^verbatim>\<open>fastdx::onWindowDestroy\<close> are declared in fastdx.h, which is not among the sources.
  The spec describes the loop as running the frame callback again and again; here it
  handles the events in turn (a frame, or the destruction of the window, in any
  order and number) and stops where a callback never returns.
\<close>

fun runMainLoop :: "(loop_event \<Rightarrow> d3d_state \<Rightarrow> outcome) \<Rightarrow> loop_event list \<Rightarrow> d3d_state \<Rightarrow> outcome" where
  "runMainLoop step [] s = Returned s"
| "runMainLoop step (e # es) s =
     (case step e s of
        Returned s' \<Rightarrow> runMainLoop step es s'
      | Blocked s' \<Rightarrow> Blocked s')"

definition tiny_WinMain :: "init_env \<Rightarrow> loop_event list \<Rightarrow> outcome" where
  "tiny_WinMain env events = runMainLoop tiny_step events (tiny_initializeD3d env globals0)"

definition triangle_WinMain :: "init_env \<Rightarrow> loop_event list \<Rightarrow> outcome" where
  "triangle_WinMain env events = runMainLoop triangle_step events (triangle_initializeD3d env globals0)"

section \<open>Notions the properties are stated with\<close>

text \<open>The calls a step has added to those of the state it started from.\<close>

definition frameCalls :: "d3d_state \<Rightarrow> d3d_state \<Rightarrow> api_call list" where
  "frameCalls before after = drop (length (calls before)) (calls after)"

text \<open>
  The fence logic in the words of the specification: signal the counter's value,
  record it for the current frame, ask the swap chain for the next index, read the
  completed value, and, when that is below the value recorded for the next index
  (or the wait is forced), register the event and wait for it.
\<close>

definition spec_fenceCalls :: "bool \<Rightarrow> nat \<Rightarrow> d3d_state \<Rightarrow> api_call list" where
  "spec_fenceCalls forceWait k s =
     (let signalled = swapFenceCounter s;
          waitValues = (swapFenceWaitValue s)[frameIndex s := signalled];
          nextFrameIndex = backBufferIndex s;
          completed = fst (gpuRun k (fenceValue s) (gpuQueue s @ [SignalFence signalled]))
      in [Signal (swapFence s) signalled,
          GetCurrentBackBufferIndex nextFrameIndex,
          GetCompletedValue (swapFence s) completed]
         @ (if completed < waitValues ! nextFrameIndex \<or> forceWait
            then [SetEventOnCompletion (swapFence s) (waitValues ! nextFrameIndex) (fenceEvent s),
                  WaitForSingleObjectEx (fenceEvent s)]
            else []))"

text \<open>The whole effect of the fence logic, as one expression over the starting state.\<close>

definition waitGpu_result :: "bool \<Rightarrow> nat \<Rightarrow> d3d_state \<Rightarrow> outcome" where
  "waitGpu_result forceWait k s =
     (let c = swapFenceCounter s;
          w = (swapFenceWaitValue s)[frameIndex s := c];
          n = backBufferIndex s;
          fq = gpuRun k (fenceValue s) (gpuQueue s @ [SignalFence c]);
          s' = s\<lparr>swapFenceWaitValue := w, swapFenceCounter := c + 1,
                 calls := calls s @ spec_fenceCalls forceWait k s\<rparr>
      in if fst fq < w ! n \<or> forceWait then
           (case gpuWait (w ! n) (fst fq) (snd fq) of
              None \<Rightarrow>
                Blocked (s'\<lparr>fenceValue := fst (gpuRun (length (snd fq)) (fst fq) (snd fq)),
                            gpuQueue := snd (gpuRun (length (snd fq)) (fst fq) (snd fq)),
                            fenceEventTarget := Some (w ! n)\<rparr>)
            | Some (f, q) \<Rightarrow>
                Returned (s'\<lparr>frameIndex := n, fenceValue := f, gpuQueue := q,
                             fenceEventTarget := None\<rparr>))
         else Returned (s'\<lparr>frameIndex := n, fenceValue := fst fq, gpuQueue := snd fq\<rparr>))"

text \<open>The calls each sample records into the command list for the frame of a state.\<close>

definition tiny_recorded :: "d3d_state \<Rightarrow> api_call list" where
  "tiny_recorded s =
     [AllocatorReset (frameIndex s),
      CommandListReset (frameIndex s),
      ResourceBarrier (frameIndex s) STATE_PRESENT STATE_RENDER_TARGET,
      SetPipelineState,
      OMSetRenderTargets (rtvHeapStart s + of_nat (frameIndex s) * heapDescriptorSize s) None,
      ClearRenderTargetView (rtvHeapStart s + of_nat (frameIndex s) * heapDescriptorSize s) kClearColor,
      ResourceBarrier (frameIndex s) STATE_RENDER_TARGET STATE_PRESENT,
      CommandListClose]"

definition triangle_recorded :: "d3d_state \<Rightarrow> api_call list" where
  "triangle_recorded s =
     [AllocatorReset (frameIndex s),
      CommandListReset (frameIndex s),
      ResourceBarrier (frameIndex s) STATE_PRESENT STATE_RENDER_TARGET,
      SetPipelineState,
      OMSetRenderTargets (rtvHeapStart s + of_nat (frameIndex s) * heapDescriptorSize s)
        (Some (dsvHeapStart s)),
      ClearRenderTargetView (rtvHeapStart s + of_nat (frameIndex s) * heapDescriptorSize s) kClearColor,
      ClearDepthStencilView (dsvHeapStart s) kClearDepth,
      ResourceBarrier (frameIndex s) STATE_RENDER_TARGET STATE_PRESENT,
      CommandListClose]"

text \<open>The state once the recorded list is submitted and the frame presented.\<close>

definition submitted :: "api_call list \<Rightarrow> nat \<Rightarrow> d3d_state \<Rightarrow> d3d_state" where
  "submitted recorded k s0 =
     (gpuAdvance k s0)
       \<lparr>backBufferIndex := (backBufferIndex s0 + 1) mod kFrameCount,
        gpuQueue := gpuQueue (gpuAdvance k s0) @ [ExecCommandList (frameIndex s0)],
        calls := calls s0 @ recorded @ [ExecuteCommandLists, Present 1 0]\<rparr>"

text \<open>The phases of a frame, and the phase each call belongs to.\<close>

datatype phase = Initialise | RecordCommands | Submit | PresentFrame | Synchronise

fun phaseOf :: "api_call \<Rightarrow> phase" where
  "phaseOf (AllocatorReset i) = RecordCommands"
| "phaseOf (CommandListReset i) = RecordCommands"
| "phaseOf (ResourceBarrier i a b) = RecordCommands"
| "phaseOf SetPipelineState = RecordCommands"
| "phaseOf (OMSetRenderTargets r d) = RecordCommands"
| "phaseOf (ClearRenderTargetView r c) = RecordCommands"
| "phaseOf (ClearDepthStencilView d c) = RecordCommands"
| "phaseOf CommandListClose = RecordCommands"
| "phaseOf ExecuteCommandLists = Submit"
| "phaseOf (Present a b) = PresentFrame"
| "phaseOf (Signal h v) = Synchronise"
| "phaseOf (GetCurrentBackBufferIndex i) = Synchronise"
| "phaseOf (GetCompletedValue h v) = Synchronise"
| "phaseOf (SetEventOnCompletion h v e) = Synchronise"
| "phaseOf (WaitForSingleObjectEx e) = Synchronise"
| "phaseOf c = Initialise"

text \<open>The calls of a frame that come before its \<^verbatim>\<open>Present\<close>.\<close>

definition beforePresent :: "api_call list \<Rightarrow> api_call list" where
  "beforePresent cs = takeWhile (\<lambda>c. phaseOf c \<noteq> PresentFrame) cs"

definition afterPresent :: "api_call list \<Rightarrow> api_call list" where
  "afterPresent cs = tl (dropWhile (\<lambda>c. phaseOf c \<noteq> PresentFrame) cs)"

fun isDepthClear :: "api_call \<Rightarrow> bool" where
  "isDepthClear (ClearDepthStencilView d c) = True"
| "isDepthClear c = False"

fun bindsDepthView :: "api_call \<Rightarrow> bool" where
  "bindsDepthView (OMSetRenderTargets r (Some d)) = True"
| "bindsDepthView c = False"

text \<open>What a list of calls opens, creates and synchronises on.\<close>

fun openedFile :: "api_call \<Rightarrow> fs_path list" where
  "openedFile (IfstreamOpen p ok) = [p]"
| "openedFile c = []"

definition openedFiles :: "api_call list \<Rightarrow> fs_path list" where
  "openedFiles cs = concat (map openedFile cs)"

fun fenceCreated :: "api_call \<Rightarrow> handle list" where
  "fenceCreated (CreateFence v h) = [h]"
| "fenceCreated c = []"

definition fencesCreated :: "api_call list \<Rightarrow> handle list" where
  "fencesCreated cs = concat (map fenceCreated cs)"

fun eventCreated :: "api_call \<Rightarrow> handle list" where
  "eventCreated (CreateEvent h) = [h]"
| "eventCreated c = []"

definition eventsCreated :: "api_call list \<Rightarrow> handle list" where
  "eventsCreated cs = concat (map eventCreated cs)"

fun fenceUsed :: "api_call \<Rightarrow> handle list" where
  "fenceUsed (Signal h v) = [h]"
| "fenceUsed (GetCompletedValue h v) = [h]"
| "fenceUsed (SetEventOnCompletion h v e) = [h]"
| "fenceUsed c = []"

definition fencesUsed :: "api_call list \<Rightarrow> handle list" where
  "fencesUsed cs = concat (map fenceUsed cs)"

fun eventUsed :: "api_call \<Rightarrow> handle list" where
  "eventUsed (SetEventOnCompletion h v e) = [e]"
| "eventUsed (WaitForSingleObjectEx e) = [e]"
| "eventUsed c = []"

definition eventsUsed :: "api_call list \<Rightarrow> handle list" where
  "eventsUsed cs = concat (map eventUsed cs)"

fun signalValue :: "api_call \<Rightarrow> uint64 list" where
  "signalValue (Signal h v) = [v]"
| "signalValue c = []"

text \<open>The values signalled on the command queue, in order.\<close>

definition signalled :: "api_call list \<Rightarrow> uint64 list" where
  "signalled cs = concat (map signalValue cs)"

text \<open>An environment to run the samples in: only the vertex shader file exists.\<close>

definition example_env :: init_env where
  "example_env =
     \<lparr>modulePathBuffer = \<lparr>root_path = ''C:/'', relative_path = [''demos'', ''sample.exe'']\<rparr>,
      files = [\<lparr>root_path = ''C:/'', relative_path = [''demos'', ''simple_vs.cso'']\<rparr> \<mapsto> [68, 88, 66, 67]],
      newFence = 7, newEvent = 9, rtvStart = 4096, dsvStart = 8192, descriptorSize = 32\<rparr>"

text \<open>What the steps of the loop keep: the handles, the files opened, the objects created.\<close>

definition handlesKept :: "handle \<Rightarrow> handle \<Rightarrow> fs_path list \<Rightarrow> d3d_state \<Rightarrow> bool" where
  "handlesKept hf he ps s \<longleftrightarrow>
     swapFence s = hf \<and> fenceEvent s = he \<and> openedFiles (calls s) = ps \<and>
     fencesCreated (calls s) = [hf] \<and> eventsCreated (calls s) = [he] \<and>
     set (fencesUsed (calls s)) \<subseteq> {hf} \<and> set (eventsUsed (calls s)) \<subseteq> {he}"

text \<open>
  The allocator of the current frame may be reset: the fence has reached the value
  recorded for the frame, and no command list recorded into that allocator is still
  in the queue.
\<close>

definition resetSafe :: "d3d_state \<Rightarrow> bool" where
  "resetSafe s \<longleftrightarrow>
     swapFenceWaitValue s ! frameIndex s \<le> fenceValue s \<and>
     ExecCommandList (frameIndex s) \<notin> set (gpuQueue s)"

text \<open>
  The invariant behind it, for a state in which \<open>n\<close> values have been signalled.
  In the queue the signalled values increase, lie above the fence value and are at
  most \<open>n\<close>, and every command list is followed by a signal of at most the value
  recorded for its frame index.
\<close>

fun isSignalUpTo :: "uint64 \<Rightarrow> gpu_work \<Rightarrow> bool" where
  "isSignalUpTo bound (SignalFence v) = (v \<le> bound)"
| "isSignalUpTo bound (ExecCommandList i) = False"

fun queueOk :: "nat \<Rightarrow> uint64 list \<Rightarrow> uint64 \<Rightarrow> gpu_work list \<Rightarrow> bool" where
  "queueOk n w f [] = True"
| "queueOk n w f (SignalFence v # q) = (f < v \<and> unat v \<le> n \<and> queueOk n w v q)"
| "queueOk n w f (ExecCommandList i # q) = (list_ex (isSignalUpTo (w ! i)) q \<and> queueOk n w f q)"

definition loopInv :: "nat \<Rightarrow> d3d_state \<Rightarrow> bool" where
  "loopInv n s \<longleftrightarrow>
     swapFenceCounter s = of_nat (Suc n) \<and>
     length (swapFenceWaitValue s) = kFrameCount \<and>
     frameIndex s < kFrameCount \<and>
     backBufferIndex s = frameIndex s \<and>
     list_all (\<lambda>x. unat x \<le> n) (swapFenceWaitValue s) \<and>
     unat (fenceValue s) \<le> n \<and>
     queueOk n (swapFenceWaitValue s) (fenceValue s) (gpuQueue s) \<and>
     swapFenceWaitValue s ! frameIndex s \<le> fenceValue s"

text \<open>
  What the fence logic does to the GPU side of the state: whether the call returns,
  and the fence value and the queue it leaves.
\<close>

definition syncGpu :: "bool \<Rightarrow> nat \<Rightarrow> d3d_state \<Rightarrow> bool \<times> uint64 \<times> gpu_work list" where
  "syncGpu forceWait k s =
     (let c = swapFenceCounter s;
          w = (swapFenceWaitValue s)[frameIndex s := c];
          n = backBufferIndex s;
          fq = gpuRun k (fenceValue s) (gpuQueue s @ [SignalFence c])
      in if fst fq < w ! n \<or> forceWait then
           (case gpuWait (w ! n) (fst fq) (snd fq) of
              None \<Rightarrow> (False, gpuRun (length (snd fq)) (fst fq) (snd fq))
            | Some fq' \<Rightarrow> (True, fq'))
         else (True, fq))"

text \<open>A frame in which the GPU does nothing while the CPU runs.\<close>

definition stalledFrame :: loop_event where
  "stalledFrame = Frame \<lparr>gpuBefore = 0, gpuAfter = 0\<rparr>"

text \<open>
  The counter after \<open>n\<close> signals: it started at 0, was incremented when the fence was
  created and once for every signal, and the values signalled were its successive
  values.
\<close>

definition counted :: "nat \<Rightarrow> d3d_state \<Rightarrow> bool" where
  "counted n s \<longleftrightarrow>
     swapFenceCounter s = of_nat (Suc n) \<and>
     signalled (calls s) = map of_nat [1..<Suc n]"

text \<open>
  The fence value the CPU reads in a frame: the GPU has got \<open>gpuBefore\<close> pieces of
  work further, the frame's command list and signal have been queued, and the GPU
  has got \<open>gpuAfter\<close> pieces further.
\<close>

definition frameCompleted :: "frame_env \<Rightarrow> d3d_state \<Rightarrow> uint64" where
  "frameCompleted env s =
     fst (gpuRun (gpuAfter env)
            (fst (gpuRun (gpuBefore env) (fenceValue s) (gpuQueue s)))
            (snd (gpuRun (gpuBefore env) (fenceValue s) (gpuQueue s))
               @ [ExecCommandList (frameIndex s), SignalFence (swapFenceCounter s)]))"

text \<open>The files a list of calls tried to open, each with whether it opened.\<close>

fun fileOpen :: "api_call \<Rightarrow> (fs_path \<times> bool) list" where
  "fileOpen (IfstreamOpen p ok) = [(p, ok)]"
| "fileOpen c = []"

definition fileOpens :: "api_call list \<Rightarrow> (fs_path \<times> bool) list" where
  "fileOpens cs = concat (map fileOpen cs)"

text \<open>A relative path of one file name, as the literals passed to readShader.\<close>

definition shaderName :: "string \<Rightarrow> fs_path" where
  "shaderName name = \<lparr>root_path = [], relative_path = [name]\<rparr>"

text \<open>What the loop keeps of the shaders: the files tried and the two byte vectors.\<close>

definition shadersKept :: "(fs_path \<times> bool) list \<Rightarrow> uint8 list \<Rightarrow> uint8 list \<Rightarrow> d3d_state \<Rightarrow> bool" where
  "shadersKept opens vs ps s \<longleftrightarrow>
     fileOpens (calls s) = opens \<and> vertexShader s = vs \<and> pixelShader s = ps"

text \<open>An environment in which both shader files exist beside the executable.\<close>

definition loaded_env :: init_env where
  "loaded_env =
     \<lparr>modulePathBuffer = \<lparr>root_path = ''C:/'', relative_path = [''demos'', ''sample.exe'']\<rparr>,
      files = [\<lparr>root_path = ''C:/'', relative_path = [''demos'', ''simple_vs.cso'']\<rparr> \<mapsto> [68, 88, 66, 67],
               \<lparr>root_path = ''C:/'', relative_path = [''demos'', ''simple_ps.cso'']\<rparr> \<mapsto> [68, 88, 66, 67, 1]],
      newFence = 7, newEvent = 9, rtvStart = 4096, dsvStart = 8192, descriptorSize = 32\<rparr>"

section \<open>Properties\<close>

subsection \<open>The fence logic and the frame as single expressions\<close>

lemma triangle_waitGpu_eq: "triangle_waitGpu forceWait k s = waitGpu_result forceWait k s"
  by (simp add: triangle_waitGpu_def waitGpu_result_def spec_fenceCalls_def Let_def
      do_Signal_def do_GetCurrentBackBufferIndex_def do_GetCompletedValue_def
      do_SetEventOnCompletion_def do_WaitForSingleObjectEx_def call_def gpuAdvance_def
      split: prod.splits option.splits)

lemma gpuAdvance_fields [simp]:
  "frameIndex (gpuAdvance k s) = frameIndex s"
  "swapFence (gpuAdvance k s) = swapFence s"
  "fenceEvent (gpuAdvance k s) = fenceEvent s"
  "swapFenceCounter (gpuAdvance k s) = swapFenceCounter s"
  "swapFenceWaitValue (gpuAdvance k s) = swapFenceWaitValue s"
  "vertexShader (gpuAdvance k s) = vertexShader s"
  "pixelShader (gpuAdvance k s) = pixelShader s"
  "rtvHeapStart (gpuAdvance k s) = rtvHeapStart s"
  "dsvHeapStart (gpuAdvance k s) = dsvHeapStart s"
  "heapDescriptorSize (gpuAdvance k s) = heapDescriptorSize s"
  "backBufferIndex (gpuAdvance k s) = backBufferIndex s"
  "fenceEventTarget (gpuAdvance k s) = fenceEventTarget s"
  "calls (gpuAdvance k s) = calls s"
  "fenceValue (gpuAdvance k s) = fst (gpuRun k (fenceValue s) (gpuQueue s))"
  "gpuQueue (gpuAdvance k s) = snd (gpuRun k (fenceValue s) (gpuQueue s))"
  by (simp_all add: gpuAdvance_def split: prod.splits)

lemma triangle_draw_eq:
  "triangle_draw env s =
     waitGpu_result False (gpuAfter env) (submitted (triangle_recorded s) (gpuBefore env) s)"
proof -
  have "submitted (triangle_recorded s) (gpuBefore env) s =
        do_Present (do_ExecuteCommandLists (frameIndex s)
          ((gpuAdvance (gpuBefore env) s)\<lparr>calls := calls s @ triangle_recorded s\<rparr>))"
    by (cases s) (simp add: submitted_def do_Present_def do_ExecuteCommandLists_def call_def
        gpuAdvance_def split: prod.splits)
  then show ?thesis
    unfolding triangle_waitGpu_eq [symmetric]
    by (simp add: triangle_draw_def triangle_recorded_def Let_def call_def)
qed

lemma tiny_draw_eq:
  "tiny_draw env s =
     waitGpu_result False (gpuAfter env) (submitted (tiny_recorded s) (gpuBefore env) s)"
proof -
  have "submitted (tiny_recorded s) (gpuBefore env) s =
        do_Present (do_ExecuteCommandLists (frameIndex s)
          ((gpuAdvance (gpuBefore env) s)\<lparr>calls := calls s @ tiny_recorded s\<rparr>))"
    by (cases s) (simp add: submitted_def do_Present_def do_ExecuteCommandLists_def call_def
        gpuAdvance_def split: prod.splits)
  then show ?thesis
    unfolding triangle_waitGpu_eq [symmetric]
    by (simp add: tiny_draw_def triangle_waitGpu_def tiny_recorded_def Let_def call_def)
qed

lemma calls_waitGpu_result:
  "calls (stateOf (waitGpu_result forceWait k s)) = calls s @ spec_fenceCalls forceWait k s"
  by (simp add: waitGpu_result_def Let_def split: option.splits prod.splits)

subsection \<open>The calls of a frame\<close>

lemma submitted_fields [simp]:
  "frameIndex (submitted r k s) = frameIndex s"
  "swapFence (submitted r k s) = swapFence s"
  "fenceEvent (submitted r k s) = fenceEvent s"
  "swapFenceCounter (submitted r k s) = swapFenceCounter s"
  "swapFenceWaitValue (submitted r k s) = swapFenceWaitValue s"
  "vertexShader (submitted r k s) = vertexShader s"
  "pixelShader (submitted r k s) = pixelShader s"
  "rtvHeapStart (submitted r k s) = rtvHeapStart s"
  "dsvHeapStart (submitted r k s) = dsvHeapStart s"
  "heapDescriptorSize (submitted r k s) = heapDescriptorSize s"
  "backBufferIndex (submitted r k s) = (backBufferIndex s + 1) mod kFrameCount"
  "fenceEventTarget (submitted r k s) = fenceEventTarget s"
  "calls (submitted r k s) = calls s @ r @ [ExecuteCommandLists, Present 1 0]"
  "fenceValue (submitted r k s) = fst (gpuRun k (fenceValue s) (gpuQueue s))"
  "gpuQueue (submitted r k s) = snd (gpuRun k (fenceValue s) (gpuQueue s)) @ [ExecCommandList (frameIndex s)]"
  by (simp_all add: submitted_def)

lemma waitGpu_result_fields [simp]:
  "swapFence (stateOf (waitGpu_result f k s)) = swapFence s"
  "fenceEvent (stateOf (waitGpu_result f k s)) = fenceEvent s"
  "swapFenceCounter (stateOf (waitGpu_result f k s)) = swapFenceCounter s + 1"
  "swapFenceWaitValue (stateOf (waitGpu_result f k s)) = (swapFenceWaitValue s)[frameIndex s := swapFenceCounter s]"
  "vertexShader (stateOf (waitGpu_result f k s)) = vertexShader s"
  "pixelShader (stateOf (waitGpu_result f k s)) = pixelShader s"
  "rtvHeapStart (stateOf (waitGpu_result f k s)) = rtvHeapStart s"
  "dsvHeapStart (stateOf (waitGpu_result f k s)) = dsvHeapStart s"
  "heapDescriptorSize (stateOf (waitGpu_result f k s)) = heapDescriptorSize s"
  "backBufferIndex (stateOf (waitGpu_result f k s)) = backBufferIndex s"
  "frameIndex (stateOf (waitGpu_result f k s)) =
     (if hasReturned (waitGpu_result f k s) then backBufferIndex s else frameIndex s)"
  by (simp_all add: waitGpu_result_def Let_def split: option.splits prod.splits)

lemma frameCalls_append [simp]: "calls r = calls s @ cs \<Longrightarrow> frameCalls s r = cs"
  by (simp add: frameCalls_def)

lemma frameCalls_waitGpu:
  "frameCalls s (stateOf (waitGpu_result f k s)) = spec_fenceCalls f k s"
  by (simp add: calls_waitGpu_result)

lemma frameCalls_triangle_draw:
  "frameCalls s (stateOf (triangle_draw env s)) =
     triangle_recorded s @ [ExecuteCommandLists, Present 1 0]
       @ spec_fenceCalls False (gpuAfter env) (submitted (triangle_recorded s) (gpuBefore env) s)"
  by (simp add: triangle_draw_eq calls_waitGpu_result)

lemma frameCalls_tiny_draw:
  "frameCalls s (stateOf (tiny_draw env s)) =
     tiny_recorded s @ [ExecuteCommandLists, Present 1 0]
       @ spec_fenceCalls False (gpuAfter env) (submitted (tiny_recorded s) (gpuBefore env) s)"
  by (simp add: tiny_draw_eq calls_waitGpu_result)

lemma phaseOf_spec_fenceCalls:
  "map phaseOf (spec_fenceCalls f k s) = replicate (length (spec_fenceCalls f k s)) Synchronise"
  by (simp add: spec_fenceCalls_def Let_def)

lemma length_spec_fenceCalls: "3 \<le> length (spec_fenceCalls f k s)"
  by (simp add: spec_fenceCalls_def Let_def)

lemma afterPresent_frame:
  "list_all (\<lambda>c. phaseOf c \<noteq> PresentFrame) r \<Longrightarrow>
   afterPresent (r @ [ExecuteCommandLists, Present 1 0] @ cs) = cs"
  by (simp add: afterPresent_def dropWhile_append list_all_iff)

lemma beforePresent_frame:
  "list_all (\<lambda>c. phaseOf c \<noteq> PresentFrame) r \<Longrightarrow>
   beforePresent (r @ [ExecuteCommandLists, Present 1 0] @ cs) = r @ [ExecuteCommandLists]"
  by (simp add: beforePresent_def takeWhile_append list_all_iff)

lemma recorded_not_present:
  "list_all (\<lambda>c. phaseOf c \<noteq> PresentFrame) (tiny_recorded s)"
  "list_all (\<lambda>c. phaseOf c \<noteq> PresentFrame) (triangle_recorded s)"
  by (simp_all add: tiny_recorded_def triangle_recorded_def)


lemma afterPresent_tiny_draw:
  "afterPresent (frameCalls s (stateOf (tiny_draw env s)))
     = spec_fenceCalls False (gpuAfter env) (submitted (tiny_recorded s) (gpuBefore env) s)"
  unfolding frameCalls_tiny_draw by (rule afterPresent_frame) (rule recorded_not_present)

lemma afterPresent_triangle_draw:
  "afterPresent (frameCalls s (stateOf (triangle_draw env s)))
     = spec_fenceCalls False (gpuAfter env) (submitted (triangle_recorded s) (gpuBefore env) s)"
  unfolding frameCalls_triangle_draw by (rule afterPresent_frame) (rule recorded_not_present)

lemma beforePresent_tiny_draw:
  "beforePresent (frameCalls s (stateOf (tiny_draw env s))) = tiny_recorded s @ [ExecuteCommandLists]"
  unfolding frameCalls_tiny_draw by (rule beforePresent_frame) (rule recorded_not_present)

lemma beforePresent_triangle_draw:
  "beforePresent (frameCalls s (stateOf (triangle_draw env s))) = triangle_recorded s @ [ExecuteCommandLists]"
  unfolding frameCalls_triangle_draw by (rule beforePresent_frame) (rule recorded_not_present)

lemma tiny_draw_fields:
  "swapFenceWaitValue (stateOf (tiny_draw env s))
       = (swapFenceWaitValue s)[frameIndex s := swapFenceCounter s]"
  "swapFenceCounter (stateOf (tiny_draw env s)) = swapFenceCounter s + 1"
  "frameIndex (stateOf (tiny_draw env s))
       = (if hasReturned (tiny_draw env s) then (backBufferIndex s + 1) mod kFrameCount
          else frameIndex s)"
  "swapFence (stateOf (tiny_draw env s)) = swapFence s"
  "fenceEvent (stateOf (tiny_draw env s)) = fenceEvent s"
  by (simp_all add: tiny_draw_eq)

lemma triangle_draw_fields:
  "swapFenceWaitValue (stateOf (triangle_draw env s))
       = (swapFenceWaitValue s)[frameIndex s := swapFenceCounter s]"
  "swapFenceCounter (stateOf (triangle_draw env s)) = swapFenceCounter s + 1"
  "frameIndex (stateOf (triangle_draw env s))
       = (if hasReturned (triangle_draw env s) then (backBufferIndex s + 1) mod kFrameCount
          else frameIndex s)"
  "swapFence (stateOf (triangle_draw env s)) = swapFence s"
  "fenceEvent (stateOf (triangle_draw env s)) = fenceEvent s"
  by (simp_all add: triangle_draw_eq)

text \<open>
  Claim C2. The fence logic of a frame makes exactly the calls of the specification,
  in its order (\<open>spec_fenceCalls\<close>: signal the counter's value, ask for the next
  frame index, read the completed value, and register the event and wait only when
  the completed value is below the value recorded for the next index); it records
  the signalled value for the current frame, increments the counter, and, once it
  returns, has set \<open>frameIndex\<close> to the index the swap chain gave. This holds for
  \<^verbatim>\<open>waitGpu()\<close> of the triangle sample and for the inline code that follows
  \<^verbatim>\<open>Present\<close> in the tiny sample.
\<close>

theorem fence_logic_steps:
  "frameCalls s (stateOf (triangle_waitGpu False k s)) = spec_fenceCalls False k s
   \<and> swapFenceWaitValue (stateOf (triangle_waitGpu False k s))
       = (swapFenceWaitValue s)[frameIndex s := swapFenceCounter s]
   \<and> swapFenceCounter (stateOf (triangle_waitGpu False k s)) = swapFenceCounter s + 1
   \<and> frameIndex (stateOf (triangle_waitGpu False k s))
       = (if hasReturned (triangle_waitGpu False k s) then backBufferIndex s else frameIndex s)
   \<and> afterPresent (frameCalls s (stateOf (tiny_draw env s)))
       = spec_fenceCalls False (gpuAfter env) (submitted (tiny_recorded s) (gpuBefore env) s)
   \<and> swapFenceWaitValue (stateOf (tiny_draw env s))
       = (swapFenceWaitValue s)[frameIndex s := swapFenceCounter s]
   \<and> swapFenceCounter (stateOf (tiny_draw env s)) = swapFenceCounter s + 1
   \<and> frameIndex (stateOf (tiny_draw env s))
       = (if hasReturned (tiny_draw env s) then (backBufferIndex s + 1) mod kFrameCount
          else frameIndex s)"
  by (simp add: triangle_waitGpu_eq frameCalls_waitGpu afterPresent_tiny_draw tiny_draw_fields)

lemma spec_fenceCalls_submitted:
  "spec_fenceCalls False (gpuAfter env) (submitted r (gpuBefore env) s) =
     [Signal (swapFence s) (swapFenceCounter s),
      GetCurrentBackBufferIndex ((backBufferIndex s + 1) mod kFrameCount),
      GetCompletedValue (swapFence s) (frameCompleted env s)]
     @ (if frameCompleted env s
            < (swapFenceWaitValue s)[frameIndex s := swapFenceCounter s]
                ! ((backBufferIndex s + 1) mod kFrameCount)
        then [SetEventOnCompletion (swapFence s)
                ((swapFenceWaitValue s)[frameIndex s := swapFenceCounter s]
                   ! ((backBufferIndex s + 1) mod kFrameCount))
                (fenceEvent s),
              WaitForSingleObjectEx (fenceEvent s)]
        else [])"
  by (simp add: spec_fenceCalls_def Let_def frameCompleted_def)

text \<open>
  Claim C4. The calls of one \<^verbatim>\<open>draw\<close> are, in this order and with nothing else: the
  recorded commands (allocator and command list reset, barrier, pipeline state,
  render targets, clears, barrier, close), then \<^verbatim>\<open>ExecuteCommandLists\<close>, then
  \<^verbatim>\<open>Present\<close>, then the synchronisation: the fence signal with the counter's value,
  the query of the next frame index, the read of the completed value, and the
  registration of the event with the wait exactly when the completed value is below
  the value recorded for the next frame index. The counter is incremented and the
  signalled value recorded for the frame. This holds for both samples.
\<close>

theorem frame_phase_order:
  "frameCalls s (stateOf (triangle_draw env s))
     = triangle_recorded s @ [ExecuteCommandLists] @ [Present 1 0]
         @ afterPresent (frameCalls s (stateOf (triangle_draw env s)))
   \<and> map phaseOf (frameCalls s (stateOf (triangle_draw env s)))
     = replicate 9 RecordCommands @ [Submit] @ [PresentFrame]
         @ replicate (length (afterPresent (frameCalls s (stateOf (triangle_draw env s))))) Synchronise
   \<and> 3 \<le> length (afterPresent (frameCalls s (stateOf (triangle_draw env s))))
   \<and> frameCalls s (stateOf (tiny_draw env s))
     = tiny_recorded s @ [ExecuteCommandLists] @ [Present 1 0]
         @ afterPresent (frameCalls s (stateOf (tiny_draw env s)))
   \<and> map phaseOf (frameCalls s (stateOf (tiny_draw env s)))
     = replicate 8 RecordCommands @ [Submit] @ [PresentFrame]
         @ replicate (length (afterPresent (frameCalls s (stateOf (tiny_draw env s))))) Synchronise
   \<and> 3 \<le> length (afterPresent (frameCalls s (stateOf (tiny_draw env s))))
   \<and> frameCalls s (stateOf (triangle_draw env s))
     = [AllocatorReset (frameIndex s),
        CommandListReset (frameIndex s),
        ResourceBarrier (frameIndex s) STATE_PRESENT STATE_RENDER_TARGET,
        SetPipelineState,
        OMSetRenderTargets (rtvHeapStart s + of_nat (frameIndex s) * heapDescriptorSize s)
          (Some (dsvHeapStart s)),
        ClearRenderTargetView (rtvHeapStart s + of_nat (frameIndex s) * heapDescriptorSize s) kClearColor,
        ClearDepthStencilView (dsvHeapStart s) kClearDepth,
        ResourceBarrier (frameIndex s) STATE_RENDER_TARGET STATE_PRESENT,
        CommandListClose]
       @ [ExecuteCommandLists]
       @ [Present 1 0]
       @ [Signal (swapFence s) (swapFenceCounter s),
          GetCurrentBackBufferIndex ((backBufferIndex s + 1) mod kFrameCount),
          GetCompletedValue (swapFence s) (frameCompleted env s)]
       @ (if frameCompleted env s
              < (swapFenceWaitValue s)[frameIndex s := swapFenceCounter s]
                  ! ((backBufferIndex s + 1) mod kFrameCount)
          then [SetEventOnCompletion (swapFence s)
                  ((swapFenceWaitValue s)[frameIndex s := swapFenceCounter s]
                     ! ((backBufferIndex s + 1) mod kFrameCount))
                  (fenceEvent s),
                WaitForSingleObjectEx (fenceEvent s)]
          else [])
   \<and> frameCalls s (stateOf (tiny_draw env s))
     = [AllocatorReset (frameIndex s),
        CommandListReset (frameIndex s),
        ResourceBarrier (frameIndex s) STATE_PRESENT STATE_RENDER_TARGET,
        SetPipelineState,
        OMSetRenderTargets (rtvHeapStart s + of_nat (frameIndex s) * heapDescriptorSize s) None,
        ClearRenderTargetView (rtvHeapStart s + of_nat (frameIndex s) * heapDescriptorSize s) kClearColor,
        ResourceBarrier (frameIndex s) STATE_RENDER_TARGET STATE_PRESENT,
        CommandListClose]
       @ [ExecuteCommandLists]
       @ [Present 1 0]
       @ [Signal (swapFence s) (swapFenceCounter s),
          GetCurrentBackBufferIndex ((backBufferIndex s + 1) mod kFrameCount),
          GetCompletedValue (swapFence s) (frameCompleted env s)]
       @ (if frameCompleted env s
              < (swapFenceWaitValue s)[frameIndex s := swapFenceCounter s]
                  ! ((backBufferIndex s + 1) mod kFrameCount)
          then [SetEventOnCompletion (swapFence s)
                  ((swapFenceWaitValue s)[frameIndex s := swapFenceCounter s]
                     ! ((backBufferIndex s + 1) mod kFrameCount))
                  (fenceEvent s),
                WaitForSingleObjectEx (fenceEvent s)]
          else [])
   \<and> swapFenceCounter (stateOf (triangle_draw env s)) = swapFenceCounter s + 1
   \<and> swapFenceCounter (stateOf (tiny_draw env s)) = swapFenceCounter s + 1
   \<and> swapFenceWaitValue (stateOf (triangle_draw env s))
       = (swapFenceWaitValue s)[frameIndex s := swapFenceCounter s]
   \<and> swapFenceWaitValue (stateOf (tiny_draw env s))
       = (swapFenceWaitValue s)[frameIndex s := swapFenceCounter s]"
proof -
  have rec: "map phaseOf (triangle_recorded s) = replicate 9 RecordCommands"
    "map phaseOf (tiny_recorded s) = replicate 8 RecordCommands"
    by (simp_all add: tiny_recorded_def triangle_recorded_def numeral_eq_Suc)
  have old: "frameCalls s (stateOf (triangle_draw env s))
     = triangle_recorded s @ [ExecuteCommandLists] @ [Present 1 0]
         @ afterPresent (frameCalls s (stateOf (triangle_draw env s)))
   \<and> map phaseOf (frameCalls s (stateOf (triangle_draw env s)))
     = replicate 9 RecordCommands @ [Submit] @ [PresentFrame]
         @ replicate (length (afterPresent (frameCalls s (stateOf (triangle_draw env s))))) Synchronise
   \<and> 3 \<le> length (afterPresent (frameCalls s (stateOf (triangle_draw env s))))
   \<and> frameCalls s (stateOf (tiny_draw env s))
     = tiny_recorded s @ [ExecuteCommandLists] @ [Present 1 0]
         @ afterPresent (frameCalls s (stateOf (tiny_draw env s)))
   \<and> map phaseOf (frameCalls s (stateOf (tiny_draw env s)))
     = replicate 8 RecordCommands @ [Submit] @ [PresentFrame]
         @ replicate (length (afterPresent (frameCalls s (stateOf (tiny_draw env s))))) Synchronise
   \<and> 3 \<le> length (afterPresent (frameCalls s (stateOf (tiny_draw env s))))"
    unfolding afterPresent_tiny_draw afterPresent_triangle_draw
    unfolding frameCalls_tiny_draw frameCalls_triangle_draw
    by (simp add: rec phaseOf_spec_fenceCalls length_spec_fenceCalls del: replicate_Suc replicate.simps)
  have new: "frameCalls s (stateOf (triangle_draw env s))
       = triangle_recorded s @ [ExecuteCommandLists] @ [Present 1 0]
         @ spec_fenceCalls False (gpuAfter env) (submitted (triangle_recorded s) (gpuBefore env) s)"
    "frameCalls s (stateOf (tiny_draw env s))
       = tiny_recorded s @ [ExecuteCommandLists] @ [Present 1 0]
         @ spec_fenceCalls False (gpuAfter env) (submitted (tiny_recorded s) (gpuBefore env) s)"
    by (simp_all add: frameCalls_tiny_draw frameCalls_triangle_draw)
  show ?thesis
    apply (intro conjI)
    using old apply simp_all [6]
    unfolding new spec_fenceCalls_submitted
    by (simp_all add: tiny_recorded_def triangle_recorded_def tiny_draw_fields triangle_draw_fields)
qed

text \<open>
  Claim C5. In every frame of both samples the render target view of the current
  frame index is cleared with the constant clear colour before \<^verbatim>\<open>Present\<close>, and
  \<^verbatim>\<open>Present\<close> is called. The triangle sample also clears the depth buffer before
  presenting and binds the depth-stencil view; the tiny sample records no depth
  clear and binds no depth-stencil view.
\<close>

theorem clear_before_present:
  "ClearRenderTargetView (rtvHeapStart s + of_nat (frameIndex s) * heapDescriptorSize s) kClearColor
     \<in> set (beforePresent (frameCalls s (stateOf (triangle_draw env s))))
   \<and> ClearDepthStencilView (dsvHeapStart s) kClearDepth
     \<in> set (beforePresent (frameCalls s (stateOf (triangle_draw env s))))
   \<and> Present 1 0 \<in> set (frameCalls s (stateOf (triangle_draw env s)))
   \<and> ClearRenderTargetView (rtvHeapStart s + of_nat (frameIndex s) * heapDescriptorSize s) kClearColor
     \<in> set (beforePresent (frameCalls s (stateOf (tiny_draw env s))))
   \<and> Present 1 0 \<in> set (frameCalls s (stateOf (tiny_draw env s)))
   \<and> filter isDepthClear (frameCalls s (stateOf (tiny_draw env s))) = []
   \<and> filter bindsDepthView (frameCalls s (stateOf (tiny_draw env s))) = []
   \<and> filter bindsDepthView (frameCalls s (stateOf (triangle_draw env s)))
     = [OMSetRenderTargets (rtvHeapStart s + of_nat (frameIndex s) * heapDescriptorSize s)
          (Some (dsvHeapStart s))]"
proof -
  have sync: "filter isDepthClear (spec_fenceCalls f k t) = []"
    "filter bindsDepthView (spec_fenceCalls f k t) = []" for f k t
    by (simp_all add: spec_fenceCalls_def Let_def)
  have rec: "filter isDepthClear (tiny_recorded s) = []"
    "filter bindsDepthView (tiny_recorded s) = []"
    "filter bindsDepthView (triangle_recorded s)
     = [OMSetRenderTargets (rtvHeapStart s + of_nat (frameIndex s) * heapDescriptorSize s)
          (Some (dsvHeapStart s))]"
    "ClearRenderTargetView (rtvHeapStart s + of_nat (frameIndex s) * heapDescriptorSize s) kClearColor
       \<in> set (tiny_recorded s)"
    "ClearRenderTargetView (rtvHeapStart s + of_nat (frameIndex s) * heapDescriptorSize s) kClearColor
       \<in> set (triangle_recorded s)"
    "ClearDepthStencilView (dsvHeapStart s) kClearDepth \<in> set (triangle_recorded s)"
    by (simp_all add: tiny_recorded_def triangle_recorded_def)
  show ?thesis
    unfolding beforePresent_tiny_draw beforePresent_triangle_draw
    unfolding frameCalls_tiny_draw frameCalls_triangle_draw
    by (simp add: rec sync)
qed

subsection \<open>readShader: failure and success\<close>

lemma ifstream_read_all:
  "ifstream_read \<lparr>remaining = bytes, failbit = False\<rparr> (resize out (length bytes)) (length bytes)
     = (\<lparr>remaining = [], failbit = False\<rparr>, bytes)"
  by (simp add: ifstream_read_def resize_def Let_def)

text \<open>
  Claim C6. When the shader file cannot be opened, readShader returns E_FAIL (which
  is not S_OK) and leaves the output buffer as it was: an empty buffer stays empty.
\<close>

theorem readShader_open_failure:
  assumes "files env (fullFilePath env filePath) = None"
  shows "readShader env filePath outShaderData =
           (E_FAIL, outShaderData, [GetModuleFileName, IfstreamOpen (fullFilePath env filePath) False])
         \<and> E_FAIL \<noteq> S_OK
         \<and> fst (snd (readShader env filePath [])) = []"
  using assms by (simp add: readShader_def ifstream_open_def Let_def E_FAIL_def S_OK_def)

theorem readShader_open_failure_witness:
  "files example_env (fullFilePath example_env \<lparr>root_path = [], relative_path = [''simple_ps.cso'']\<rparr>) = None
   \<and> readShader example_env \<lparr>root_path = [], relative_path = [''simple_ps.cso'']\<rparr> [] =
       (E_FAIL, [], [GetModuleFileName,
          IfstreamOpen \<lparr>root_path = ''C:/'', relative_path = [''demos'', ''simple_ps.cso'']\<rparr> False])"
proof -
  have h: "files example_env (fullFilePath example_env \<lparr>root_path = [], relative_path = [''simple_ps.cso'']\<rparr>) = None"
    by (simp add: example_env_def fullFilePath_def path_append_def parent_path_def is_absolute_def)
  have p: "fullFilePath example_env \<lparr>root_path = [], relative_path = [''simple_ps.cso'']\<rparr>
           = \<lparr>root_path = ''C:/'', relative_path = [''demos'', ''simple_ps.cso'']\<rparr>"
    by (simp add: example_env_def fullFilePath_def path_append_def parent_path_def is_absolute_def)
  show ?thesis
    using h readShader_open_failure [OF h, of "[]"] by (simp add: p)
qed

text \<open>
  Claim C9. When the shader file opens, the buffer ends up holding exactly the
  file's bytes, its length is the size the file system reports, and S_OK is
  returned.
\<close>

theorem readShader_open_success:
  assumes "files env (fullFilePath env filePath) = Some bytes"
  shows "readShader env filePath outShaderData =
           (S_OK, bytes, [GetModuleFileName, IfstreamOpen (fullFilePath env filePath) True])
         \<and> length (fst (snd (readShader env filePath outShaderData)))
             = file_size (files env) (fullFilePath env filePath)
         \<and> length (resize outShaderData (file_size (files env) (fullFilePath env filePath)))
             = length bytes"
proof -
  have "length (resize outShaderData (length bytes)) = length bytes"
    by (simp add: resize_def)
  with assms show ?thesis
    by (simp add: readShader_def ifstream_open_def Let_def file_size_def ifstream_read_all)
qed

theorem readShader_open_success_witness:
  "files example_env (fullFilePath example_env \<lparr>root_path = [], relative_path = [''simple_vs.cso'']\<rparr>)
     = Some [68, 88, 66, 67]
   \<and> readShader example_env \<lparr>root_path = [], relative_path = [''simple_vs.cso'']\<rparr> [1, 2, 3, 4, 5, 6] =
       (S_OK, [68, 88, 66, 67], [GetModuleFileName,
          IfstreamOpen \<lparr>root_path = ''C:/'', relative_path = [''demos'', ''simple_vs.cso'']\<rparr> True])"
proof -
  have p: "fullFilePath example_env \<lparr>root_path = [], relative_path = [''simple_vs.cso'']\<rparr>
           = \<lparr>root_path = ''C:/'', relative_path = [''demos'', ''simple_vs.cso'']\<rparr>"
    by (simp add: example_env_def fullFilePath_def path_append_def parent_path_def is_absolute_def)
  have h: "files example_env (fullFilePath example_env \<lparr>root_path = [], relative_path = [''simple_vs.cso'']\<rparr>)
           = Some [68, 88, 66, 67]"
    unfolding p by (simp add: example_env_def)
  show ?thesis
    using h readShader_open_success [OF h, of "[1, 2, 3, 4, 5, 6]"] by (simp add: p)
qed

subsection \<open>Invariants of the main loop\<close>

lemma runMainLoop_invariant:
  assumes "P s" and "\<And>e t. P t \<Longrightarrow> P (stateOf (step e t))"
  shows "P (stateOf (runMainLoop step events s))"
  using assms(1)
proof (induction events arbitrary: s)
  case Nil
  then show ?case by simp
next
  case (Cons e es)
  show ?case
  proof (cases "step e s")
    case (Returned t)
    with assms(2) [OF Cons.prems, of e] have "P t" by simp
    with Cons.IH Returned show ?thesis by simp
  next
    case (Blocked t)
    with assms(2) [OF Cons.prems, of e] show ?thesis by simp
  qed
qed

subsection \<open>Files opened, fences and events created\<close>

lemma observers_append [simp]:
  "openedFiles (xs @ ys) = openedFiles xs @ openedFiles ys"
  "fencesCreated (xs @ ys) = fencesCreated xs @ fencesCreated ys"
  "eventsCreated (xs @ ys) = eventsCreated xs @ eventsCreated ys"
  "fencesUsed (xs @ ys) = fencesUsed xs @ fencesUsed ys"
  "eventsUsed (xs @ ys) = eventsUsed xs @ eventsUsed ys"
  "signalled (xs @ ys) = signalled xs @ signalled ys"
  by (simp_all add: openedFiles_def fencesCreated_def eventsCreated_def fencesUsed_def
      eventsUsed_def signalled_def)

lemma observers_Nil [simp]:
  "openedFiles [] = []" "fencesCreated [] = []" "eventsCreated [] = []"
  "fencesUsed [] = []" "eventsUsed [] = []" "signalled [] = []"
  by (simp_all add: openedFiles_def fencesCreated_def eventsCreated_def fencesUsed_def
      eventsUsed_def signalled_def)

lemma observers_Cons [simp]:
  "openedFiles (c # cs) = openedFile c @ openedFiles cs"
  "fencesCreated (c # cs) = fenceCreated c @ fencesCreated cs"
  "eventsCreated (c # cs) = eventCreated c @ eventsCreated cs"
  "fencesUsed (c # cs) = fenceUsed c @ fencesUsed cs"
  "eventsUsed (c # cs) = eventUsed c @ eventsUsed cs"
  "signalled (c # cs) = signalValue c @ signalled cs"
  by (simp_all add: openedFiles_def fencesCreated_def eventsCreated_def fencesUsed_def
      eventsUsed_def signalled_def)

lemma observers_recorded [simp]:
  "openedFiles (tiny_recorded s) = []" "openedFiles (triangle_recorded s) = []"
  "fencesCreated (tiny_recorded s) = []" "fencesCreated (triangle_recorded s) = []"
  "eventsCreated (tiny_recorded s) = []" "eventsCreated (triangle_recorded s) = []"
  "fencesUsed (tiny_recorded s) = []" "fencesUsed (triangle_recorded s) = []"
  "eventsUsed (tiny_recorded s) = []" "eventsUsed (triangle_recorded s) = []"
  "signalled (tiny_recorded s) = []" "signalled (triangle_recorded s) = []"
  by (simp_all add: tiny_recorded_def triangle_recorded_def)

lemma observers_spec_fenceCalls [simp]:
  "openedFiles (spec_fenceCalls f k s) = []"
  "fencesCreated (spec_fenceCalls f k s) = []"
  "eventsCreated (spec_fenceCalls f k s) = []"
  "set (fencesUsed (spec_fenceCalls f k s)) = {swapFence s}"
  "set (eventsUsed (spec_fenceCalls f k s)) \<subseteq> {fenceEvent s}"
  "signalled (spec_fenceCalls f k s) = [swapFenceCounter s]"
  by (simp_all add: spec_fenceCalls_def Let_def)

lemma calls_tiny_draw:
  "calls (stateOf (tiny_draw env s)) =
     calls s @ tiny_recorded s @ [ExecuteCommandLists, Present 1 0]
       @ spec_fenceCalls False (gpuAfter env) (submitted (tiny_recorded s) (gpuBefore env) s)"
  by (simp add: tiny_draw_eq calls_waitGpu_result)

lemma calls_triangle_draw:
  "calls (stateOf (triangle_draw env s)) =
     calls s @ triangle_recorded s @ [ExecuteCommandLists, Present 1 0]
       @ spec_fenceCalls False (gpuAfter env) (submitted (triangle_recorded s) (gpuBefore env) s)"
  by (simp add: triangle_draw_eq calls_waitGpu_result)

lemma calls_onWindowDestroy:
  "calls (stateOf (onWindowDestroy k s)) = calls s @ spec_fenceCalls True k s"
  by (simp add: onWindowDestroy_def triangle_waitGpu_eq calls_waitGpu_result)

lemma onWindowDestroy_fields [simp]:
  "swapFence (stateOf (onWindowDestroy k s)) = swapFence s"
  "fenceEvent (stateOf (onWindowDestroy k s)) = fenceEvent s"
  "swapFenceCounter (stateOf (onWindowDestroy k s)) = swapFenceCounter s + 1"
  by (simp_all add: onWindowDestroy_def triangle_waitGpu_eq)

lemma handlesKept_tiny_step:
  "handlesKept hf he ps s \<Longrightarrow> handlesKept hf he ps (stateOf (tiny_step e s))"
proof (cases e)
  case (Frame env)
  assume "handlesKept hf he ps s"
  then show ?thesis
    using observers_spec_fenceCalls(5) [of False "gpuAfter env" "submitted (tiny_recorded s) (gpuBefore env) s"]
    by (simp add: handlesKept_def Frame calls_tiny_draw tiny_draw_fields)
next
  case (WindowDestroy k)
  assume "handlesKept hf he ps s"
  then show ?thesis by (simp add: WindowDestroy)
qed

lemma handlesKept_triangle_step:
  "handlesKept hf he ps s \<Longrightarrow> handlesKept hf he ps (stateOf (triangle_step e s))"
proof (cases e)
  case (Frame env)
  assume "handlesKept hf he ps s"
  then show ?thesis
    using observers_spec_fenceCalls(5) [of False "gpuAfter env" "submitted (triangle_recorded s) (gpuBefore env) s"]
    by (simp add: handlesKept_def Frame calls_triangle_draw triangle_draw_fields)
next
  case (WindowDestroy k)
  assume "handlesKept hf he ps s"
  then show ?thesis
    using observers_spec_fenceCalls(5) [of True k s]
    by (simp add: handlesKept_def WindowDestroy calls_onWindowDestroy)
qed

lemma readShader_log:
  "snd (snd (readShader env filePath out)) =
     [GetModuleFileName, IfstreamOpen (fullFilePath env filePath) (files env (fullFilePath env filePath) \<noteq> None)]"
  by (simp add: readShader_def Let_def ifstream_open_def split: option.splits prod.splits)

lemma frame_indices: "[0..<kFrameCount] = [0, 1, 2]"
  by (simp add: kFrameCount_def upt_conv_Cons)

lemma calls_createCommandAllocators:
  "calls (createCommandAllocators s) =
     calls s @ [CreateCommandAllocator 0, CreateCommandAllocator 1, CreateCommandAllocator 2]"
  by (simp add: createCommandAllocators_def frame_indices call_def)

lemma createCommandAllocators_fields [simp]:
  "swapFence (createCommandAllocators s) = swapFence s"
  "fenceEvent (createCommandAllocators s) = fenceEvent s"
  "swapFenceCounter (createCommandAllocators s) = swapFenceCounter s"
  "swapFenceWaitValue (createCommandAllocators s) = swapFenceWaitValue s"
  "frameIndex (createCommandAllocators s) = frameIndex s"
  "backBufferIndex (createCommandAllocators s) = backBufferIndex s"
  "fenceValue (createCommandAllocators s) = fenceValue s"
  "gpuQueue (createCommandAllocators s) = gpuQueue s"
  "vertexShader (createCommandAllocators s) = vertexShader s"
  "pixelShader (createCommandAllocators s) = pixelShader s"
  by (simp_all add: createCommandAllocators_def frame_indices call_def)

lemma handlesKept_tiny_init:
  "handlesKept (newFence env) (newEvent env)
     [fullFilePath env \<lparr>root_path = [], relative_path = [''simple_vs.cso'']\<rparr>,
      fullFilePath env \<lparr>root_path = [], relative_path = [''simple_ps.cso'']\<rparr>]
     (tiny_initializeD3d env globals0)"
  by (simp add: handlesKept_def tiny_initializeD3d_def Let_def createPipeline_def readShaders_def
      createFenceAndEvent_def call_def calls_createCommandAllocators globals0_def readShader_log
      case_prod_beta)

lemma handlesKept_triangle_init:
  "handlesKept (newFence env) (newEvent env)
     [fullFilePath env \<lparr>root_path = [], relative_path = [''simple_vs.cso'']\<rparr>,
      fullFilePath env \<lparr>root_path = [], relative_path = [''simple_ps.cso'']\<rparr>]
     (triangle_initializeD3d env globals0)"
  by (simp add: handlesKept_def triangle_initializeD3d_def Let_def createPipeline_def readShaders_def
      createFenceAndEvent_def call_def calls_createCommandAllocators globals0_def readShader_log
      case_prod_beta)

lemma handlesKept_WinMain:
  "handlesKept (newFence env) (newEvent env)
     [fullFilePath env \<lparr>root_path = [], relative_path = [''simple_vs.cso'']\<rparr>,
      fullFilePath env \<lparr>root_path = [], relative_path = [''simple_ps.cso'']\<rparr>]
     (stateOf (tiny_WinMain env events))"
  "handlesKept (newFence env) (newEvent env)
     [fullFilePath env \<lparr>root_path = [], relative_path = [''simple_vs.cso'']\<rparr>,
      fullFilePath env \<lparr>root_path = [], relative_path = [''simple_ps.cso'']\<rparr>]
     (stateOf (triangle_WinMain env events))"
  unfolding tiny_WinMain_def triangle_WinMain_def
  by (rule runMainLoop_invariant, rule handlesKept_tiny_init, erule handlesKept_tiny_step)
     (rule runMainLoop_invariant, rule handlesKept_triangle_init, erule handlesKept_triangle_step)

lemma fileOpens_simps [simp]:
  "fileOpens [] = []"
  "fileOpens (c # cs) = fileOpen c @ fileOpens cs"
  "fileOpens (xs @ ys) = fileOpens xs @ fileOpens ys"
  by (simp_all add: fileOpens_def)

lemma fileOpens_frame [simp]:
  "fileOpens (tiny_recorded s) = []"
  "fileOpens (triangle_recorded s) = []"
  "fileOpens (spec_fenceCalls f k s) = []"
  by (simp_all add: tiny_recorded_def triangle_recorded_def spec_fenceCalls_def Let_def)

lemma readShader_result:
  "readShader env filePath out =
     (if files env (fullFilePath env filePath) = None then E_FAIL else S_OK,
      case files env (fullFilePath env filePath) of None \<Rightarrow> out | Some bytes \<Rightarrow> bytes,
      [GetModuleFileName,
       IfstreamOpen (fullFilePath env filePath) (files env (fullFilePath env filePath) \<noteq> None)])"
proof (cases "files env (fullFilePath env filePath)")
  case None
  then show ?thesis by (simp add: readShader_def ifstream_open_def Let_def)
next
  case (Some bytes)
  then show ?thesis
    by (simp add: readShader_def ifstream_open_def Let_def file_size_def ifstream_read_all)
qed

lemma shadersKept_tiny_step:
  "shadersKept os vs ps s \<Longrightarrow> shadersKept os vs ps (stateOf (tiny_step e s))"
  by (cases e) (simp_all add: shadersKept_def calls_tiny_draw, simp add: tiny_draw_eq)

lemma shadersKept_triangle_step:
  "shadersKept os vs ps s \<Longrightarrow> shadersKept os vs ps (stateOf (triangle_step e s))"
  by (cases e)
    (simp_all add: shadersKept_def calls_triangle_draw calls_onWindowDestroy,
     simp_all add: triangle_draw_eq onWindowDestroy_def triangle_waitGpu_eq)

lemma shadersKept_init:
  "shadersKept
     [(fullFilePath env (shaderName ''simple_vs.cso''),
       files env (fullFilePath env (shaderName ''simple_vs.cso'')) \<noteq> None),
      (fullFilePath env (shaderName ''simple_ps.cso''),
       files env (fullFilePath env (shaderName ''simple_ps.cso'')) \<noteq> None)]
     (case files env (fullFilePath env (shaderName ''simple_vs.cso'')) of None \<Rightarrow> [] | Some bytes \<Rightarrow> bytes)
     (case files env (fullFilePath env (shaderName ''simple_ps.cso'')) of None \<Rightarrow> [] | Some bytes \<Rightarrow> bytes)
     (tiny_initializeD3d env globals0)"
  "shadersKept
     [(fullFilePath env (shaderName ''simple_vs.cso''),
       files env (fullFilePath env (shaderName ''simple_vs.cso'')) \<noteq> None),
      (fullFilePath env (shaderName ''simple_ps.cso''),
       files env (fullFilePath env (shaderName ''simple_ps.cso'')) \<noteq> None)]
     (case files env (fullFilePath env (shaderName ''simple_vs.cso'')) of None \<Rightarrow> [] | Some bytes \<Rightarrow> bytes)
     (case files env (fullFilePath env (shaderName ''simple_ps.cso'')) of None \<Rightarrow> [] | Some bytes \<Rightarrow> bytes)
     (triangle_initializeD3d env globals0)"
  by (simp_all add: shadersKept_def tiny_initializeD3d_def triangle_initializeD3d_def Let_def
      createPipeline_def readShaders_def createFenceAndEvent_def call_def
      calls_createCommandAllocators globals0_def readShader_result shaderName_def
      cong: option.case_cong)

lemma shadersKept_WinMain:
  "shadersKept
     [(fullFilePath env (shaderName ''simple_vs.cso''),
       files env (fullFilePath env (shaderName ''simple_vs.cso'')) \<noteq> None),
      (fullFilePath env (shaderName ''simple_ps.cso''),
       files env (fullFilePath env (shaderName ''simple_ps.cso'')) \<noteq> None)]
     (case files env (fullFilePath env (shaderName ''simple_vs.cso'')) of None \<Rightarrow> [] | Some bytes \<Rightarrow> bytes)
     (case files env (fullFilePath env (shaderName ''simple_ps.cso'')) of None \<Rightarrow> [] | Some bytes \<Rightarrow> bytes)
     (stateOf (tiny_WinMain env events))"
  "shadersKept
     [(fullFilePath env (shaderName ''simple_vs.cso''),
       files env (fullFilePath env (shaderName ''simple_vs.cso'')) \<noteq> None),
      (fullFilePath env (shaderName ''simple_ps.cso''),
       files env (fullFilePath env (shaderName ''simple_ps.cso'')) \<noteq> None)]
     (case files env (fullFilePath env (shaderName ''simple_vs.cso'')) of None \<Rightarrow> [] | Some bytes \<Rightarrow> bytes)
     (case files env (fullFilePath env (shaderName ''simple_ps.cso'')) of None \<Rightarrow> [] | Some bytes \<Rightarrow> bytes)
     (stateOf (triangle_WinMain env events))"
  unfolding tiny_WinMain_def triangle_WinMain_def
  by (rule runMainLoop_invariant, rule shadersKept_init, erule shadersKept_tiny_step)
     (rule runMainLoop_invariant, rule shadersKept_init, erule shadersKept_triangle_step)

lemma pipeline_from_shaders:
  "last (calls (tiny_initializeD3d env globals0))
     = CreateGraphicsPipelineState (vertexShader (tiny_initializeD3d env globals0))
         (pixelShader (tiny_initializeD3d env globals0))"
  "last (calls (triangle_initializeD3d env globals0))
     = CreateGraphicsPipelineState (vertexShader (triangle_initializeD3d env globals0))
         (pixelShader (triangle_initializeD3d env globals0))"
  by (simp_all add: tiny_initializeD3d_def triangle_initializeD3d_def Let_def
      createPipeline_def readShaders_def createFenceAndEvent_def call_def case_prod_beta)

text \<open>
  Claim C7. Each sample loads two files in its whole run, simple_vs.cso and then
  simple_ps.cso, each from the parent directory of the module path: these are the
  only files it tries to open, the bytes of each file that exists end up in
  vertexShader and pixelShader (which stay empty for a file that does not exist),
  and the pipeline state is created from those two vectors. For every relative file
  name readShader opens the name joined onto the parent directory of the module
  path, reads that file into the buffer, and reports whether it could.
\<close>

theorem shader_files_opened:
  assumes "\<not> is_absolute filePath"
  shows "openedFiles (calls (stateOf (tiny_WinMain env events)))
           = [path_append (parent_path (modulePathBuffer env)) \<lparr>root_path = [], relative_path = [''simple_vs.cso'']\<rparr>,
              path_append (parent_path (modulePathBuffer env)) \<lparr>root_path = [], relative_path = [''simple_ps.cso'']\<rparr>]
       \<and> openedFiles (calls (stateOf (triangle_WinMain env events)))
           = [path_append (parent_path (modulePathBuffer env)) \<lparr>root_path = [], relative_path = [''simple_vs.cso'']\<rparr>,
              path_append (parent_path (modulePathBuffer env)) \<lparr>root_path = [], relative_path = [''simple_ps.cso'']\<rparr>]
       \<and> openedFiles (snd (snd (readShader env filePath outShaderData)))
           = [path_append (parent_path (modulePathBuffer env)) filePath]
       \<and> path_append (parent_path (modulePathBuffer env)) filePath
           = \<lparr>root_path = root_path (modulePathBuffer env),
              relative_path = butlast (relative_path (modulePathBuffer env)) @ relative_path filePath\<rparr>
       \<and> fileOpens (calls (stateOf (tiny_WinMain env events)))
           = [(path_append (parent_path (modulePathBuffer env)) (shaderName ''simple_vs.cso''),
               files env (path_append (parent_path (modulePathBuffer env)) (shaderName ''simple_vs.cso'')) \<noteq> None),
              (path_append (parent_path (modulePathBuffer env)) (shaderName ''simple_ps.cso''),
               files env (path_append (parent_path (modulePathBuffer env)) (shaderName ''simple_ps.cso'')) \<noteq> None)]
       \<and> vertexShader (stateOf (tiny_WinMain env events))
           = (case files env (path_append (parent_path (modulePathBuffer env)) (shaderName ''simple_vs.cso''))
              of None \<Rightarrow> [] | Some bytes \<Rightarrow> bytes)
       \<and> pixelShader (stateOf (tiny_WinMain env events))
           = (case files env (path_append (parent_path (modulePathBuffer env)) (shaderName ''simple_ps.cso''))
              of None \<Rightarrow> [] | Some bytes \<Rightarrow> bytes)
       \<and> fileOpens (calls (stateOf (triangle_WinMain env events)))
           = [(path_append (parent_path (modulePathBuffer env)) (shaderName ''simple_vs.cso''),
               files env (path_append (parent_path (modulePathBuffer env)) (shaderName ''simple_vs.cso'')) \<noteq> None),
              (path_append (parent_path (modulePathBuffer env)) (shaderName ''simple_ps.cso''),
               files env (path_append (parent_path (modulePathBuffer env)) (shaderName ''simple_ps.cso'')) \<noteq> None)]
       \<and> vertexShader (stateOf (triangle_WinMain env events))
           = (case files env (path_append (parent_path (modulePathBuffer env)) (shaderName ''simple_vs.cso''))
              of None \<Rightarrow> [] | Some bytes \<Rightarrow> bytes)
       \<and> pixelShader (stateOf (triangle_WinMain env events))
           = (case files env (path_append (parent_path (modulePathBuffer env)) (shaderName ''simple_ps.cso''))
              of None \<Rightarrow> [] | Some bytes \<Rightarrow> bytes)
       \<and> last (calls (tiny_initializeD3d env globals0))
           = CreateGraphicsPipelineState (vertexShader (tiny_initializeD3d env globals0))
               (pixelShader (tiny_initializeD3d env globals0))
       \<and> last (calls (triangle_initializeD3d env globals0))
           = CreateGraphicsPipelineState (vertexShader (triangle_initializeD3d env globals0))
               (pixelShader (triangle_initializeD3d env globals0))
       \<and> readShader env filePath outShaderData
           = (if files env (path_append (parent_path (modulePathBuffer env)) filePath) = None
              then E_FAIL else S_OK,
              case files env (path_append (parent_path (modulePathBuffer env)) filePath)
              of None \<Rightarrow> outShaderData | Some bytes \<Rightarrow> bytes,
              [GetModuleFileName,
               IfstreamOpen (path_append (parent_path (modulePathBuffer env)) filePath)
                 (files env (path_append (parent_path (modulePathBuffer env)) filePath) \<noteq> None)])"
proof -
  have "path_append (parent_path (modulePathBuffer env)) filePath
           = \<lparr>root_path = root_path (modulePathBuffer env),
              relative_path = butlast (relative_path (modulePathBuffer env)) @ relative_path filePath\<rparr>"
    using assms by (cases "modulePathBuffer env") (simp add: path_append_def parent_path_def)
  moreover note shadersKept_WinMain [of env events, unfolded shadersKept_def fullFilePath_def]
    pipeline_from_shaders [of env]
    readShader_result [of env filePath outShaderData, unfolded fullFilePath_def]
  ultimately show ?thesis
    using handlesKept_WinMain [of env events]
    by (simp add: handlesKept_def readShader_log fullFilePath_def)
qed

theorem shader_files_opened_witness:
  "\<not> is_absolute (shaderName ''simple_ps.cso'')
   \<and> fileOpens (calls (stateOf (tiny_WinMain loaded_env [stalledFrame])))
       = [(\<lparr>root_path = ''C:/'', relative_path = [''demos'', ''simple_vs.cso'']\<rparr>, True),
          (\<lparr>root_path = ''C:/'', relative_path = [''demos'', ''simple_ps.cso'']\<rparr>, True)]
   \<and> vertexShader (stateOf (tiny_WinMain loaded_env [stalledFrame])) = [68, 88, 66, 67]
   \<and> pixelShader (stateOf (tiny_WinMain loaded_env [stalledFrame])) = [68, 88, 66, 67, 1]
   \<and> fileOpens (calls (stateOf (triangle_WinMain loaded_env [stalledFrame])))
       = [(\<lparr>root_path = ''C:/'', relative_path = [''demos'', ''simple_vs.cso'']\<rparr>, True),
          (\<lparr>root_path = ''C:/'', relative_path = [''demos'', ''simple_ps.cso'']\<rparr>, True)]
   \<and> vertexShader (stateOf (triangle_WinMain loaded_env [stalledFrame])) = [68, 88, 66, 67]
   \<and> pixelShader (stateOf (triangle_WinMain loaded_env [stalledFrame])) = [68, 88, 66, 67, 1]
   \<and> readShader loaded_env (shaderName ''simple_ps.cso'') []
       = (S_OK, [68, 88, 66, 67, 1],
          [GetModuleFileName,
           IfstreamOpen \<lparr>root_path = ''C:/'', relative_path = [''demos'', ''simple_ps.cso'']\<rparr> True])"
proof -
  have h: "\<not> is_absolute (shaderName ''simple_ps.cso'')"
    by (simp add: is_absolute_def shaderName_def)
  show ?thesis
    using h shader_files_opened [OF h, of loaded_env "[stalledFrame]" "[]"]
    by (simp add: loaded_env_def path_append_def parent_path_def is_absolute_def shaderName_def)
qed

text \<open>
  Claim C8. In the whole run of either sample the code creates one fence and one
  event, both during initialisation, and every Signal, GetCompletedValue,
  SetEventOnCompletion and WaitForSingleObjectEx names that fence and that event.
\<close>

theorem single_fence_and_event:
  "fencesCreated (calls (stateOf (tiny_WinMain env events))) = [newFence env]
   \<and> eventsCreated (calls (stateOf (tiny_WinMain env events))) = [newEvent env]
   \<and> set (fencesUsed (calls (stateOf (tiny_WinMain env events)))) \<subseteq> {newFence env}
   \<and> set (eventsUsed (calls (stateOf (tiny_WinMain env events)))) \<subseteq> {newEvent env}
   \<and> fencesCreated (calls (tiny_initializeD3d env globals0)) = [newFence env]
   \<and> eventsCreated (calls (tiny_initializeD3d env globals0)) = [newEvent env]
   \<and> fencesCreated (calls (stateOf (triangle_WinMain env events))) = [newFence env]
   \<and> eventsCreated (calls (stateOf (triangle_WinMain env events))) = [newEvent env]
   \<and> set (fencesUsed (calls (stateOf (triangle_WinMain env events)))) \<subseteq> {newFence env}
   \<and> set (eventsUsed (calls (stateOf (triangle_WinMain env events)))) \<subseteq> {newEvent env}
   \<and> fencesCreated (calls (triangle_initializeD3d env globals0)) = [newFence env]
   \<and> eventsCreated (calls (triangle_initializeD3d env globals0)) = [newEvent env]"
  using handlesKept_WinMain [of env events] handlesKept_tiny_init [of env]
    handlesKept_triangle_init [of env]
  by (simp add: handlesKept_def)

subsection \<open>The queue invariant\<close>

lemma queueOk_signal_above:
  "queueOk n w f q \<Longrightarrow> SignalFence v \<in> set q \<Longrightarrow> f < v"
proof (induction n w f q rule: queueOk.induct)
  case (2 n w f u q)
  then show ?case by (auto intro: less_trans)
qed auto

lemma queueOk_no_exec:
  "queueOk n w f q \<Longrightarrow> w ! i \<le> f \<Longrightarrow> ExecCommandList i \<notin> set q"
proof (induction n w f q rule: queueOk.induct)
  case (1 n w f)
  then show ?case by simp
next
  case (2 n w f v q)
  then have "w ! i \<le> v" by (auto intro: order_trans less_imp_le)
  with 2 show ?case by simp
next
  case (3 n w f j q)
  have "j \<noteq> i"
  proof
    assume "j = i"
    with 3 obtain x where x: "x \<in> set q" "isSignalUpTo (w ! i) x"
      by (auto simp: list_ex_iff)
    from x(2) obtain v where v: "x = SignalFence v" "v \<le> w ! i"
      by (cases x) auto
    with 3 x have "f < v" by (auto dest: queueOk_signal_above)
    with v 3 show False by simp
  qed
  with 3 show ?case by simp
qed

lemma gpuRun_queueOk:
  "queueOk n w f q \<Longrightarrow> unat f \<le> n \<Longrightarrow>
   queueOk n w (fst (gpuRun k f q)) (snd (gpuRun k f q)) \<and> f \<le> fst (gpuRun k f q)
   \<and> unat (fst (gpuRun k f q)) \<le> n"
proof (induction k f q rule: gpuRun.induct)
  case (3 k f x q)
  show ?case
  proof (cases x)
    case (ExecCommandList i)
    with 3 show ?thesis by simp
  next
    case (SignalFence v)
    with 3 have "queueOk n w v q" "unat v \<le> n" "f < v" by simp_all
    with 3 SignalFence show ?thesis by (auto intro: order_trans less_imp_le)
  qed
qed simp_all

lemma gpuWait_queueOk:
  "queueOk n w f q \<Longrightarrow> unat f \<le> n \<Longrightarrow> gpuWait t f q = Some (f', q') \<Longrightarrow>
   queueOk n w f' q' \<and> f \<le> f' \<and> unat f' \<le> n \<and> t \<le> f'"
proof (induction t f q rule: gpuWait.induct)
  case (1 t f)
  then show ?case by (simp split: if_splits)
next
  case (2 t f x q)
  show ?case
  proof (cases "t \<le> f")
    case True
    with 2 show ?thesis by auto
  next
    case False
    show ?thesis
    proof (cases x)
      case (ExecCommandList i)
      with 2 False show ?thesis by simp
    next
      case (SignalFence v)
      with 2 have "queueOk n w v q" "unat v \<le> n" "f < v" by simp_all
      with 2 False SignalFence show ?thesis by (auto intro: order_trans less_imp_le)
    qed
  qed
qed

lemma list_ex_signal_update:
  assumes "list_ex (isSignalUpTo (w ! i)) q" "fi < length w" "list_all (\<lambda>x. unat x \<le> n) w"
    "unat c = Suc n"
  shows "list_ex (isSignalUpTo (w[fi := c] ! i)) (q @ r)"
proof (cases "i = fi")
  case True
  from assms have "unat (w ! fi) \<le> n" by (simp add: list_all_length)
  with assms have "w ! fi \<le> c" by (simp add: word_le_nat_alt)
  moreover from assms True obtain x where x: "x \<in> set q" "isSignalUpTo (w ! fi) x"
    by (auto simp: list_ex_iff)
  from x(2) obtain v where "x = SignalFence v" "v \<le> w ! fi" by (cases x) auto
  ultimately have "isSignalUpTo c x" by (auto intro: order_trans)
  with x True assms show ?thesis by (auto simp: list_ex_iff)
next
  case False
  with assms show ?thesis by (auto simp: list_ex_iff)
qed

lemma queueOk_append_signal:
  assumes "fi < length w" "list_all (\<lambda>x. unat x \<le> n) w"
    "unat c = Suc n" "x = [] \<or> x = [ExecCommandList fi]"
  shows "queueOk n w f q \<Longrightarrow> unat f \<le> n \<Longrightarrow>
         queueOk (Suc n) (w[fi := c]) f (q @ x @ [SignalFence c])"
proof (induction q arbitrary: f)
  case Nil
  with assms show ?case by (auto simp: word_less_nat_alt)
next
  case (Cons a q)
  show ?case
  proof (cases a)
    case (ExecCommandList j)
    with Cons have "list_ex (isSignalUpTo (w ! j)) q" by simp
    then have "list_ex (isSignalUpTo (w[fi := c] ! j)) (q @ x @ [SignalFence c])"
      using assms(1-3) by (rule list_ex_signal_update)
    with Cons ExecCommandList show ?thesis by simp
  next
    case (SignalFence v)
    with Cons show ?thesis by simp
  qed
qed

subsection \<open>The invariant of the render loop\<close>

lemma unat_counter: "Suc n < 2 ^ 64 \<Longrightarrow> unat (of_nat (Suc n) :: uint64) = Suc n"
  by (simp add: unat_of_nat del: of_nat_Suc)

lemma waitGpu_result_inv:
  assumes c: "swapFenceCounter s = of_nat (Suc n)" "Suc n < 2 ^ 64"
    and w: "length (swapFenceWaitValue s) = kFrameCount" "list_all (\<lambda>x. unat x \<le> n) (swapFenceWaitValue s)"
    and i: "frameIndex s < kFrameCount" "backBufferIndex s < kFrameCount"
    and f: "unat (fenceValue s) \<le> n"
    and q: "gpuQueue s = q @ x" "x = [] \<or> x = [ExecCommandList (frameIndex s)]"
      "queueOk n (swapFenceWaitValue s) (fenceValue s) q"
    and r: "waitGpu_result forceWait k s = Returned s'"
  shows "loopInv (Suc n) s'"
proof -
  define c where "c = swapFenceCounter s"
  define w' where "w' = (swapFenceWaitValue s)[frameIndex s := c]"
  define b where "b = backBufferIndex s"
  define q0 where "q0 = gpuQueue s @ [SignalFence c]"
  define f1 where "f1 = fst (gpuRun k (fenceValue s) q0)"
  define q1 where "q1 = snd (gpuRun k (fenceValue s) q0)"
  have uc: "unat c = Suc n" 
    unfolding c_def c(1) using c(2) by (rule unat_counter)
  have fi: "frameIndex s < length (swapFenceWaitValue s)" using w i by simp
  have ok0: "queueOk (Suc n) w' (fenceValue s) q0"
    unfolding q0_def w'_def q(1) using queueOk_append_signal [OF fi w(2) uc q(2) q(3) f] by simp
  have f': "unat (fenceValue s) \<le> Suc n" using f by simp
  note run = gpuRun_queueOk [OF ok0 f', of k, folded f1_def q1_def]
  have wall: "list_all (\<lambda>x. unat x \<le> Suc n) w'"
    using w(2) uc unfolding w'_def list_all_iff
    by (auto dest!: set_update_subset_insert [THEN subsetD])
  have len: "length w' = kFrameCount" using w by (simp add: w'_def)
  have cnt: "c + 1 = of_nat (Suc (Suc n))" by (simp add: c_def c(1))
  show ?thesis
  proof (cases "f1 < w' ! b \<or> forceWait")
    case True
    with r obtain f2 q2 where g: "gpuWait (w' ! b) f1 q1 = Some (f2, q2)"
      and s': "s' = s\<lparr>swapFenceWaitValue := w', swapFenceCounter := c + 1,
                 calls := calls s @ spec_fenceCalls forceWait k s,
                 frameIndex := b, fenceValue := f2, gpuQueue := q2, fenceEventTarget := None\<rparr>"
      by (auto simp: waitGpu_result_def Let_def c_def w'_def b_def q0_def f1_def q1_def
          split: option.splits)
    from run have "queueOk (Suc n) w' f1 q1" "unat f1 \<le> Suc n" by simp_all
    from gpuWait_queueOk [OF this g] len wall cnt i show ?thesis
      by (simp add: loopInv_def s' b_def)
  next
    case False
    with r have s': "s' = s\<lparr>swapFenceWaitValue := w', swapFenceCounter := c + 1,
                 calls := calls s @ spec_fenceCalls forceWait k s,
                 frameIndex := b, fenceValue := f1, gpuQueue := q1\<rparr>"
      by (auto simp: waitGpu_result_def Let_def c_def w'_def b_def q0_def f1_def q1_def)
    from False have "w' ! b \<le> f1" by (simp add: not_less)
    with run len wall cnt i show ?thesis
      by (simp add: loopInv_def s' b_def)
  qed
qed

lemma inv_gpuAdvance: "loopInv n s \<Longrightarrow> loopInv n (gpuAdvance k s)"
  using gpuRun_queueOk [of n "swapFenceWaitValue s" "fenceValue s" "gpuQueue s" k]
  by (auto simp: loopInv_def intro: order_trans)

lemma inv_resetSafe: "loopInv n s \<Longrightarrow> resetSafe s"
  by (auto simp: loopInv_def resetSafe_def dest: queueOk_no_exec)

lemma inv_draw:
  assumes "loopInv n s" "Suc n < 2 ^ 64"
    "waitGpu_result False k' (submitted r k s) = Returned s'"
  shows "loopInv (Suc n) s'"
proof (rule waitGpu_result_inv [OF _ assms(2) _ _ _ _ _ _ _ _ assms(3)])
  from assms(1) have a: "loopInv n (gpuAdvance k s)" by (rule inv_gpuAdvance)
  show "gpuQueue (submitted r k s) = gpuQueue (gpuAdvance k s) @ [ExecCommandList (frameIndex s)]"
    by simp
  show "[ExecCommandList (frameIndex s)] = [] \<or>
        [ExecCommandList (frameIndex s)] = [ExecCommandList (frameIndex (submitted r k s))]"
    by simp
  from a show "queueOk n (swapFenceWaitValue (submitted r k s)) (fenceValue (submitted r k s))
     (gpuQueue (gpuAdvance k s))" by (simp add: loopInv_def)
  from a show "unat (fenceValue (submitted r k s)) \<le> n" by (simp add: loopInv_def)
  from assms(1) show "swapFenceCounter (submitted r k s) = of_nat (Suc n)"
    "length (swapFenceWaitValue (submitted r k s)) = kFrameCount"
    "list_all (\<lambda>x. unat x \<le> n) (swapFenceWaitValue (submitted r k s))"
    "frameIndex (submitted r k s) < kFrameCount"
    by (simp_all add: loopInv_def)
  show "backBufferIndex (submitted r k s) < kFrameCount" by (simp add: kFrameCount_def)
qed

lemma inv_onWindowDestroy:
  assumes "loopInv n s" "Suc n < 2 ^ 64" "onWindowDestroy k s = Returned s'"
  shows "loopInv (Suc n) s'"
proof (rule waitGpu_result_inv [OF _ assms(2)])
  show "waitGpu_result True k s = Returned s'"
    using assms(3) by (simp add: onWindowDestroy_def triangle_waitGpu_eq)
  show "gpuQueue s = gpuQueue s @ []" by simp
  show "[] = [] \<or> [] = [ExecCommandList (frameIndex s)]" by simp
  from assms(1) show "swapFenceCounter s = of_nat (Suc n)"
    "length (swapFenceWaitValue s) = kFrameCount"
    "list_all (\<lambda>x. unat x \<le> n) (swapFenceWaitValue s)"
    "frameIndex s < kFrameCount" "backBufferIndex s < kFrameCount"
    "unat (fenceValue s) \<le> n"
    "queueOk n (swapFenceWaitValue s) (fenceValue s) (gpuQueue s)"
    by (simp_all add: loopInv_def)
qed

lemma inv_tiny_step:
  assumes "loopInv n s" "Suc n < 2 ^ 64" "tiny_step e s = Returned s'"
  shows "loopInv n s' \<or> loopInv (Suc n) s'"
proof (cases e)
  case (Frame env)
  with assms show ?thesis by (auto simp: tiny_draw_eq dest: inv_draw)
next
  case (WindowDestroy k)
  with assms show ?thesis by simp
qed

lemma inv_triangle_step:
  assumes "loopInv n s" "Suc n < 2 ^ 64" "triangle_step e s = Returned s'"
  shows "loopInv n s' \<or> loopInv (Suc n) s'"
proof (cases e)
  case (Frame env)
  with assms show ?thesis by (auto simp: triangle_draw_eq dest: inv_draw)
next
  case (WindowDestroy k)
  with assms show ?thesis by (auto dest: inv_onWindowDestroy)
qed

lemma inv_runMainLoop:
  assumes step: "\<And>m e t t'. loopInv m t \<Longrightarrow> Suc m < 2 ^ 64 \<Longrightarrow> step e t = Returned t' \<Longrightarrow>
                   loopInv m t' \<or> loopInv (Suc m) t'"
  shows "loopInv n s \<Longrightarrow> n + length events < 2 ^ 64 \<Longrightarrow> runMainLoop step events s = Returned s' \<Longrightarrow>
         \<exists>m \<le> n + length events. loopInv m s'"
proof (induction events arbitrary: n s)
  case Nil
  then show ?case by auto
next
  case (Cons e es)
  from Cons.prems(3) obtain t where t: "step e s = Returned t" "runMainLoop step es t = Returned s'"
    by (auto split: outcome.splits)
  from Cons.prems have "Suc n < 2 ^ 64" by simp
  from step [OF Cons.prems(1) this t(1)] show ?case
  proof
    assume "loopInv n t"
    from Cons.IH [OF this _ t(2)] Cons.prems(2) obtain m where "m \<le> n + length es" "loopInv m s'"
      by auto
    then show ?thesis by (intro exI [of _ m]) simp
  next
    assume "loopInv (Suc n) t"
    from Cons.IH [OF this _ t(2)] Cons.prems(2) obtain m where "m \<le> Suc n + length es" "loopInv m s'"
      by auto
    then show ?thesis by (intro exI [of _ m]) simp
  qed
qed

lemma inv_init:
  "loopInv 0 (tiny_initializeD3d env globals0)" "loopInv 0 (triangle_initializeD3d env globals0)"
  by (simp_all add: loopInv_def tiny_initializeD3d_def triangle_initializeD3d_def Let_def
      createPipeline_def readShaders_def createFenceAndEvent_def call_def globals0_def
      case_prod_beta kFrameCount_def numeral_eq_Suc)

subsection \<open>Evaluating runs\<close>

lemma waitGpu_result_gpu:
  "hasReturned (waitGpu_result f k s) = fst (syncGpu f k s)"
  "fenceValue (stateOf (waitGpu_result f k s)) = fst (snd (syncGpu f k s))"
  "gpuQueue (stateOf (waitGpu_result f k s)) = snd (snd (syncGpu f k s))"
  by (simp_all add: waitGpu_result_def syncGpu_def Let_def split: option.splits prod.splits)

lemma outcome_collapse: "hasReturned x \<Longrightarrow> x = Returned (stateOf x)"
  by (cases x) simp_all

lemma runMainLoop_Cons:
  "runMainLoop step (e # es) s =
     (if hasReturned (step e s) then runMainLoop step es (stateOf (step e s))
      else Blocked (stateOf (step e s)))"
  by (cases "step e s") simp_all

lemma runMainLoop_append:
  "runMainLoop step (xs @ ys) s =
     (if hasReturned (runMainLoop step xs s) then runMainLoop step ys (stateOf (runMainLoop step xs s))
      else Blocked (stateOf (runMainLoop step xs s)))"
proof (induction xs arbitrary: s)
  case Nil
  then show ?case by simp
next
  case (Cons e xs)
  then show ?case by (cases "step e s") simp_all
qed

lemma init_fields [simp]:
  "frameIndex (tiny_initializeD3d env globals0) = 0"
  "backBufferIndex (tiny_initializeD3d env globals0) = 0"
  "swapFenceCounter (tiny_initializeD3d env globals0) = 1"
  "swapFenceWaitValue (tiny_initializeD3d env globals0) = [0, 0, 0]"
  "fenceValue (tiny_initializeD3d env globals0) = 0"
  "gpuQueue (tiny_initializeD3d env globals0) = []"
  "signalled (calls (tiny_initializeD3d env globals0)) = []"
  "frameIndex (triangle_initializeD3d env globals0) = 0"
  "backBufferIndex (triangle_initializeD3d env globals0) = 0"
  "swapFenceCounter (triangle_initializeD3d env globals0) = 1"
  "swapFenceWaitValue (triangle_initializeD3d env globals0) = [0, 0, 0]"
  "fenceValue (triangle_initializeD3d env globals0) = 0"
  "gpuQueue (triangle_initializeD3d env globals0) = []"
  "signalled (calls (triangle_initializeD3d env globals0)) = []"
  by (simp_all add: tiny_initializeD3d_def triangle_initializeD3d_def Let_def
      createPipeline_def readShaders_def createFenceAndEvent_def call_def globals0_def
      case_prod_beta kFrameCount_def numeral_eq_Suc calls_createCommandAllocators readShader_log)

lemma draw_gpu:
  "hasReturned (tiny_draw env s) = fst (syncGpu False (gpuAfter env) (submitted (tiny_recorded s) (gpuBefore env) s))"
  "fenceValue (stateOf (tiny_draw env s)) = fst (snd (syncGpu False (gpuAfter env) (submitted (tiny_recorded s) (gpuBefore env) s)))"
  "gpuQueue (stateOf (tiny_draw env s)) = snd (snd (syncGpu False (gpuAfter env) (submitted (tiny_recorded s) (gpuBefore env) s)))"
  "backBufferIndex (stateOf (tiny_draw env s)) = (backBufferIndex s + 1) mod kFrameCount"
  "hasReturned (triangle_draw env s) = fst (syncGpu False (gpuAfter env) (submitted (triangle_recorded s) (gpuBefore env) s))"
  "fenceValue (stateOf (triangle_draw env s)) = fst (snd (syncGpu False (gpuAfter env) (submitted (triangle_recorded s) (gpuBefore env) s)))"
  "gpuQueue (stateOf (triangle_draw env s)) = snd (snd (syncGpu False (gpuAfter env) (submitted (triangle_recorded s) (gpuBefore env) s)))"
  "backBufferIndex (stateOf (triangle_draw env s)) = (backBufferIndex s + 1) mod kFrameCount"
  by (simp_all add: tiny_draw_eq triangle_draw_eq waitGpu_result_gpu)

lemma syncGpu_submitted:
  "syncGpu f k' (submitted r k s) =
     (let c = swapFenceCounter s;
          w = (swapFenceWaitValue s)[frameIndex s := c];
          n = (backBufferIndex s + 1) mod kFrameCount;
          fq0 = gpuRun k (fenceValue s) (gpuQueue s);
          fq = gpuRun k' (fst fq0) (snd fq0 @ [ExecCommandList (frameIndex s), SignalFence c])
      in if fst fq < w ! n \<or> f then
           (case gpuWait (w ! n) (fst fq) (snd fq) of
              None \<Rightarrow> (False, gpuRun (length (snd fq)) (fst fq) (snd fq))
            | Some fq' \<Rightarrow> (True, fq'))
         else (True, fq))"
  by (simp add: syncGpu_def Let_def)

lemma four_stalled_frames:
  "hasReturned (tiny_WinMain example_env [stalledFrame, stalledFrame, stalledFrame, stalledFrame])"
  by (simp add: tiny_WinMain_def stalledFrame_def runMainLoop_Cons draw_gpu syncGpu_submitted
      tiny_draw_fields kFrameCount_def Let_def del: runMainLoop.simps(2))

text \<open>
  Claim C1. A command allocator is never reset while its frame's GPU work is in
  flight. In every state the render loop of either sample reaches (within the range
  of the 64-bit fence counter: fewer than 2^64 loop events), whatever the GPU has
  done since, the fence's completed value is at least the value recorded for the
  current frame index, and no command list recorded into that frame's allocator is
  still queued. The reset of that allocator is the first call of the next frame,
  made in exactly such a state (the state the loop has reached, advanced by what the
  GPU did meanwhile), so every reset of a run is covered.
\<close>

theorem allocator_reset_safe:
  assumes "length events < 2 ^ 64"
    and "run = tiny_WinMain env events \<or> run = triangle_WinMain env events"
    and "hasReturned run"
  shows "resetSafe (gpuAdvance k (stateOf run))
       \<and> take 1 (frameCalls (stateOf run) (stateOf (tiny_draw fenv (stateOf run))))
           = [AllocatorReset (frameIndex (stateOf run))]
       \<and> take 1 (frameCalls (stateOf run) (stateOf (triangle_draw fenv (stateOf run))))
           = [AllocatorReset (frameIndex (stateOf run))]"
proof -
  from assms(3) have r: "run = Returned (stateOf run)" by (rule outcome_collapse)
  from assms(2) have "\<exists>m. loopInv m (stateOf run)"
  proof
    assume "run = tiny_WinMain env events"
    with r have "runMainLoop tiny_step events (tiny_initializeD3d env globals0) = Returned (stateOf run)"
      by (simp add: tiny_WinMain_def)
    moreover have "0 + length events < 2 ^ 64" using assms(1) by simp
    ultimately have "\<exists>m \<le> 0 + length events. loopInv m (stateOf run)"
      using inv_init(1) inv_tiny_step by (intro inv_runMainLoop [where step = tiny_step]) 
    then show ?thesis by blast
  next
    assume "run = triangle_WinMain env events"
    with r have "runMainLoop triangle_step events (triangle_initializeD3d env globals0) = Returned (stateOf run)"
      by (simp add: triangle_WinMain_def)
    moreover have "0 + length events < 2 ^ 64" using assms(1) by simp
    ultimately have "\<exists>m \<le> 0 + length events. loopInv m (stateOf run)"
      using inv_init(2) inv_triangle_step by (intro inv_runMainLoop [where step = triangle_step]) 
    then show ?thesis by blast
  qed
  then obtain m where "loopInv m (stateOf run)" ..
  then have "resetSafe (gpuAdvance k (stateOf run))"
    by (intro inv_resetSafe inv_gpuAdvance)
  then show ?thesis
    by (simp add: frameCalls_tiny_draw frameCalls_triangle_draw tiny_recorded_def triangle_recorded_def)
qed

theorem allocator_reset_safe_witness:
  "length [stalledFrame, stalledFrame, stalledFrame, stalledFrame] < (2::nat) ^ 64
   \<and> hasReturned (tiny_WinMain example_env [stalledFrame, stalledFrame, stalledFrame, stalledFrame])
   \<and> resetSafe (gpuAdvance 1
        (stateOf (tiny_WinMain example_env [stalledFrame, stalledFrame, stalledFrame, stalledFrame])))"
  using four_stalled_frames
    allocator_reset_safe [of "[stalledFrame, stalledFrame, stalledFrame, stalledFrame]"
      "tiny_WinMain example_env [stalledFrame, stalledFrame, stalledFrame, stalledFrame]"
      example_env 1 "\<lparr>gpuBefore = 0, gpuAfter = 0\<rparr>"]
  by simp

subsection \<open>The fence counter\<close>

lemma word_of_nat_less_small:
  "x < y \<Longrightarrow> y < 2 ^ 64 \<Longrightarrow> (of_nat x :: uint64) < of_nat y"
  by (simp add: word_of_nat_less_iff take_bit_nat_eq_self)

lemma sorted_signal_values:
  assumes "n < 2 ^ 64"
  shows "sorted_wrt (<) (map of_nat [1..<Suc n] :: uint64 list)"
proof -
  have "sorted_wrt (\<lambda>x y. (of_nat x :: uint64) < of_nat y) [1..<Suc n]"
  proof (rule sorted_wrt_mono_rel [OF _ sorted_wrt_upt])
    fix x y assume "x \<in> set [1..<Suc n]" "y \<in> set [1..<Suc n]" "x < y"
    with assms show "(of_nat x :: uint64) < of_nat y"
      by (intro word_of_nat_less_small) auto
  qed
  then show ?thesis by (simp add: sorted_wrt_map)
qed

lemma signal_values_below_counter:
  assumes "Suc n < 2 ^ 64"
  shows "list_all (\<lambda>v. v < (of_nat (Suc n) :: uint64)) (map of_nat [1..<Suc n])"
  unfolding list_all_iff
proof
  fix v assume "v \<in> set (map of_nat [1..<Suc n] :: uint64 list)"
  then obtain x where x: "v = of_nat x" "x < Suc n" by auto
  show "v < of_nat (Suc n)"
    unfolding x(1) using x(2) assms by (rule word_of_nat_less_small)
qed

lemma counted_sync:
  assumes "counted n s"
  shows "counted (Suc n) (stateOf (waitGpu_result f k s))"
proof -
  from assms have s: "swapFenceCounter s = of_nat (Suc n)"
    "signalled (calls s) = map of_nat [1..<Suc n]"
    by (simp_all add: counted_def)
  have "swapFenceCounter s + 1 = of_nat (Suc (Suc n))" by (simp add: s(1))
  moreover have "signalled (calls s) @ [swapFenceCounter s] = map of_nat [1..<Suc (Suc n)]"
    unfolding s by (simp del: of_nat_Suc)
  ultimately show ?thesis
    unfolding counted_def by (simp add: calls_waitGpu_result del: of_nat_Suc upt_Suc)
qed

lemma counted_submitted:
  "counted n s \<Longrightarrow> signalled r = [] \<Longrightarrow> counted n (submitted r k s)"
  by (simp add: counted_def)

lemma counted_step:
  assumes "counted n s"
  shows "counted n (stateOf (tiny_step e s)) \<or> counted (Suc n) (stateOf (tiny_step e s))"
    "counted n (stateOf (triangle_step e s)) \<or> counted (Suc n) (stateOf (triangle_step e s))"
  using assms
  by (cases e; simp add: tiny_draw_eq triangle_draw_eq onWindowDestroy_def triangle_waitGpu_eq
      counted_sync counted_submitted)+

lemma counted_runMainLoop:
  assumes step: "\<And>m e t. counted m t \<Longrightarrow> counted m (stateOf (step e t)) \<or> counted (Suc m) (stateOf (step e t))"
  shows "counted n s \<Longrightarrow> \<exists>m \<le> n + length events. counted m (stateOf (runMainLoop step events s))"
proof (induction events arbitrary: n s)
  case Nil
  then show ?case by auto
next
  case (Cons e es)
  show ?case
  proof (cases "step e s")
    case (Blocked t)
    with step [OF Cons.prems, of e] have "counted n t \<or> counted (Suc n) t" by simp
    then show ?thesis
    proof
      assume "counted n t"
      with Blocked show ?thesis by (intro exI [of _ n]) simp
    next
      assume "counted (Suc n) t"
      with Blocked show ?thesis by (intro exI [of _ "Suc n"]) simp
    qed
  next
    case (Returned t)
    with step [OF Cons.prems, of e] have "counted n t \<or> counted (Suc n) t" by simp
    then show ?thesis
    proof
      assume "counted n t"
      from Cons.IH [OF this] obtain m where "m \<le> n + length es" "counted m (stateOf (runMainLoop step es t))"
        by auto
      with Returned show ?thesis by (intro exI [of _ m]) simp
    next
      assume "counted (Suc n) t"
      from Cons.IH [OF this] obtain m where "m \<le> Suc n + length es" "counted m (stateOf (runMainLoop step es t))"
        by auto
      with Returned show ?thesis by (intro exI [of _ m]) simp
    qed
  qed
qed

lemma counted_init:
  "counted 0 (tiny_initializeD3d env globals0)" "counted 0 (triangle_initializeD3d env globals0)"
  by (simp_all add: counted_def)

lemma counted_WinMain:
  assumes "run = tiny_WinMain env events \<or> run = triangle_WinMain env events"
  shows "\<exists>m \<le> length events. counted m (stateOf run)"
  using assms counted_runMainLoop [of tiny_step 0 "tiny_initializeD3d env globals0" events]
    counted_runMainLoop [of triangle_step 0 "triangle_initializeD3d env globals0" events]
  by (auto simp: tiny_WinMain_def triangle_WinMain_def counted_init counted_step)

text \<open>
  Claim C3. The counter starts at 0 and is incremented by one at fence creation and
  by one wherever a value is signalled (once per frame), nowhere else. In every run
  within the range of the 64-bit counter (fewer than 2^64 - 1 loop events) its value
  is one more than the number of signals, every signalled value is below it, and the
  signalled values are strictly increasing.
\<close>

theorem fence_counter_monotone:
  assumes "length events < 2 ^ 64 - 1"
    and "run = tiny_WinMain env events \<or> run = triangle_WinMain env events"
  shows "swapFenceCounter globals0 = 0
       \<and> swapFenceCounter (tiny_initializeD3d env globals0) = 1
       \<and> swapFenceCounter (triangle_initializeD3d env globals0) = 1
       \<and> swapFenceCounter (stateOf (tiny_draw fenv s)) = swapFenceCounter s + 1
       \<and> swapFenceCounter (stateOf (triangle_draw fenv s)) = swapFenceCounter s + 1
       \<and> swapFenceCounter (stateOf (triangle_waitGpu forceWait k s)) = swapFenceCounter s + 1
       \<and> unat (swapFenceCounter (stateOf run)) = Suc (length (signalled (calls (stateOf run))))
       \<and> list_all (\<lambda>v. v < swapFenceCounter (stateOf run)) (signalled (calls (stateOf run)))
       \<and> sorted_wrt (<) (signalled (calls (stateOf run)))"
proof -
  from counted_WinMain [OF assms(2)] obtain m where m: "m \<le> length events" "counted m (stateOf run)"
    by auto
  with assms(1) have b: "Suc m < 2 ^ 64" "m < 2 ^ 64" by simp_all
  from m(2) have c: "swapFenceCounter (stateOf run) = of_nat (Suc m)"
    "signalled (calls (stateOf run)) = map of_nat [1..<Suc m]"
    by (simp_all add: counted_def)
  have "unat (swapFenceCounter (stateOf run)) = Suc (length (signalled (calls (stateOf run))))"
    unfolding c using unat_counter [OF b(1)] by simp
  moreover have "list_all (\<lambda>v. v < swapFenceCounter (stateOf run)) (signalled (calls (stateOf run)))"
    unfolding c by (rule signal_values_below_counter [OF b(1)])
  moreover have "sorted_wrt (<) (signalled (calls (stateOf run)))"
    unfolding c by (rule sorted_signal_values [OF b(2)])
  moreover have "swapFenceCounter globals0 = 0" by (simp add: globals0_def)
  ultimately show ?thesis
    by (simp add: tiny_draw_fields triangle_draw_fields triangle_waitGpu_eq)
qed

theorem fence_counter_monotone_witness:
  "length [stalledFrame, stalledFrame, stalledFrame, stalledFrame] < (2::nat) ^ 64 - 1
   \<and> unat (swapFenceCounter (stateOf (tiny_WinMain example_env
        [stalledFrame, stalledFrame, stalledFrame, stalledFrame])))
       = Suc (length (signalled (calls (stateOf (tiny_WinMain example_env
        [stalledFrame, stalledFrame, stalledFrame, stalledFrame])))))
   \<and> sorted_wrt (<) (signalled (calls (stateOf (tiny_WinMain example_env
        [stalledFrame, stalledFrame, stalledFrame, stalledFrame]))))"
  using fence_counter_monotone [of "[stalledFrame, stalledFrame, stalledFrame, stalledFrame]"
      "tiny_WinMain example_env [stalledFrame, stalledFrame, stalledFrame, stalledFrame]"
      example_env "\<lparr>gpuBefore = 0, gpuAfter = 0\<rparr>" globals0 False 0]
  by simp

subsection \<open>The forced wait of the window-destroy handler\<close>

lemma gpuRun_last_signal:
  "q \<noteq> [] \<Longrightarrow> last q = SignalFence c \<Longrightarrow>
   (snd (gpuRun k f q) = [] \<and> fst (gpuRun k f q) = c)
   \<or> (snd (gpuRun k f q) \<noteq> [] \<and> last (snd (gpuRun k f q)) = SignalFence c)"
proof (induction k f q rule: gpuRun.induct)
  case (3 k f x q)
  show ?case
  proof (cases "q = []")
    case True
    with 3 show ?thesis by (cases k) simp_all
  next
    case False
    with 3 show ?thesis by simp
  qed
qed simp_all

lemma gpuWait_drain:
  "queueOk n w f q \<Longrightarrow> (q = [] \<and> f = c) \<or> (q \<noteq> [] \<and> last q = SignalFence c) \<Longrightarrow>
   gpuWait c f q = Some (c, [])"
proof (induction c f q rule: gpuWait.induct)
  case (1 t f)
  then show ?case by simp
next
  case (2 t f x q)
  then have l: "last (x # q) = SignalFence t" by simp
  then have "SignalFence t \<in> set (x # q)" by (metis last_in_set list.distinct(1))
  with 2 have "f < t" by (auto dest: queueOk_signal_above)
  then have nt: "\<not> t \<le> f" by (simp add: not_le)
  show ?case
  proof (cases x)
    case (ExecCommandList i)
    with 2 l nt show ?thesis by (cases "q = []") simp_all
  next
    case (SignalFence v)
    with 2 l nt show ?thesis by (cases "q = []") simp_all
  qed
qed

lemma forced_wait_drains:
  assumes "loopInv n s" "Suc n < 2 ^ 64"
  shows "syncGpu True k s = (True, swapFenceCounter s, [])"
proof -
  define c where "c = swapFenceCounter s"
  define w' where "w' = (swapFenceWaitValue s)[frameIndex s := c]"
  define q0 where "q0 = gpuQueue s @ [SignalFence c]"
  from assms(1) have s: "swapFenceCounter s = of_nat (Suc n)"
    "length (swapFenceWaitValue s) = kFrameCount" "frameIndex s < kFrameCount"
    "backBufferIndex s = frameIndex s" "list_all (\<lambda>x. unat x \<le> n) (swapFenceWaitValue s)"
    "unat (fenceValue s) \<le> n" "queueOk n (swapFenceWaitValue s) (fenceValue s) (gpuQueue s)"
    by (simp_all add: loopInv_def)
  have uc: "unat c = Suc n"
    unfolding c_def s(1) using assms(2) by (rule unat_counter)
  have fi: "frameIndex s < length (swapFenceWaitValue s)" using s by simp
  have ok0: "queueOk (Suc n) w' (fenceValue s) q0"
    unfolding q0_def w'_def using queueOk_append_signal [OF fi s(5) uc _ s(7) s(6), of "[]"] by simp
  have f': "unat (fenceValue s) \<le> Suc n" using s(6) by simp
  from gpuRun_queueOk [OF ok0 f', of k]
  have ok1: "queueOk (Suc n) w' (fst (gpuRun k (fenceValue s) q0)) (snd (gpuRun k (fenceValue s) q0))"
    by simp
  have "q0 \<noteq> []" "last q0 = SignalFence c" by (simp_all add: q0_def)
  from gpuRun_last_signal [OF this, of k "fenceValue s"]
  have "gpuWait c (fst (gpuRun k (fenceValue s) q0)) (snd (gpuRun k (fenceValue s) q0)) = Some (c, [])"
    by (rule gpuWait_drain [OF ok1])
  moreover have "w' ! backBufferIndex s = c" using fi by (simp add: w'_def s(4))
  ultimately show ?thesis
    by (simp add: syncGpu_def Let_def c_def [symmetric] w'_def [symmetric] q0_def [symmetric])
qed

lemma four_stalled_frames_triangle:
  "hasReturned (triangle_WinMain example_env [stalledFrame, stalledFrame, stalledFrame, stalledFrame])"
  by (simp add: triangle_WinMain_def stalledFrame_def runMainLoop_Cons draw_gpu syncGpu_submitted
      triangle_draw_fields kFrameCount_def Let_def del: runMainLoop.simps(2))

text \<open>
  Claim C10. waitGpu(true) always registers the event and waits, whatever the
  completed value; the window-destroy handler of the triangle sample is
  waitGpu(true); and called in any state the loop has reached (within the range of
  the 64-bit fence counter: fewer than 2^64 - 1 loop events), it returns, and it
  returns with the command queue empty: all GPU work submitted so far has completed.
\<close>

theorem forced_wait_on_destroy:
  assumes "length events < 2 ^ 64 - 1"
    and "hasReturned (triangle_WinMain env events)"
  shows "frameCalls s (stateOf (triangle_waitGpu True k s))
           = [Signal (swapFence s) (swapFenceCounter s),
              GetCurrentBackBufferIndex (backBufferIndex s),
              GetCompletedValue (swapFence s)
                (fst (gpuRun k (fenceValue s) (gpuQueue s @ [SignalFence (swapFenceCounter s)]))),
              SetEventOnCompletion (swapFence s)
                ((swapFenceWaitValue s)[frameIndex s := swapFenceCounter s] ! backBufferIndex s)
                (fenceEvent s),
              WaitForSingleObjectEx (fenceEvent s)]
       \<and> onWindowDestroy k s = triangle_waitGpu True k s
       \<and> hasReturned (triangle_WinMain env (events @ [WindowDestroy k]))
       \<and> gpuQueue (stateOf (triangle_WinMain env (events @ [WindowDestroy k]))) = []"
proof -
  define t where "t = stateOf (triangle_WinMain env events)"
  from assms(2) have r: "runMainLoop triangle_step events (triangle_initializeD3d env globals0) = Returned t"
    unfolding t_def triangle_WinMain_def by (rule outcome_collapse)
  moreover have "0 + length events < 2 ^ 64" using assms(1) by simp
  ultimately have "\<exists>m \<le> 0 + length events. loopInv m t"
    using inv_init(2) inv_triangle_step by (intro inv_runMainLoop [where step = triangle_step])
  then obtain m where m: "m \<le> length events" "loopInv m t" by auto
  with assms(1) have "Suc m < 2 ^ 64" by simp
  from forced_wait_drains [OF m(2) this, of k]
  have d: "hasReturned (onWindowDestroy k t)" "gpuQueue (stateOf (onWindowDestroy k t)) = []"
    by (simp_all add: onWindowDestroy_def triangle_waitGpu_eq waitGpu_result_gpu)
  have "triangle_WinMain env (events @ [WindowDestroy k]) = runMainLoop triangle_step [WindowDestroy k] t"
    unfolding triangle_WinMain_def runMainLoop_append r by simp
  with d have "hasReturned (triangle_WinMain env (events @ [WindowDestroy k]))"
    "gpuQueue (stateOf (triangle_WinMain env (events @ [WindowDestroy k]))) = []"
    by (simp_all add: runMainLoop_Cons del: runMainLoop.simps(2))
  then show ?thesis
    by (simp add: onWindowDestroy_def triangle_waitGpu_eq calls_waitGpu_result spec_fenceCalls_def Let_def)
qed

theorem forced_wait_on_destroy_witness:
  "length [stalledFrame, stalledFrame, stalledFrame, stalledFrame] < (2::nat) ^ 64 - 1
   \<and> hasReturned (triangle_WinMain example_env [stalledFrame, stalledFrame, stalledFrame, stalledFrame])
   \<and> hasReturned (triangle_WinMain example_env
        ([stalledFrame, stalledFrame, stalledFrame, stalledFrame] @ [WindowDestroy 0]))
   \<and> gpuQueue (stateOf (triangle_WinMain example_env
        ([stalledFrame, stalledFrame, stalledFrame, stalledFrame] @ [WindowDestroy 0]))) = []"
  using four_stalled_frames_triangle
    forced_wait_on_destroy [of "[stalledFrame, stalledFrame, stalledFrame, stalledFrame]"
      example_env globals0 0]
  by simp

end
